theory Spec2Isabelle
  imports Main "HOL-Library.Sublist"
begin

section \<open>Session and request interception of the wiki front end\<close>

text \<open>
  The development embeds the client module of the front end (\<^verbatim>\<open>@/api/client\<close>: credential
  storage, the shared axios client and its two interceptors), the login functions of
  \<^verbatim>\<open>endpoints.ts\<close> and of the auth slice, and the post-login redirects of the profile page
  and the login form.

  What the browser and axios provide is made explicit:
  \<^item> \<^verbatim>\<open>Date.now()\<close> is an argument: every function takes one clock reading for each call of
    \<^verbatim>\<open>Date.now()\<close> it can make, in the order of the calls;
  \<^item> \<^verbatim>\<open>localStorage\<close>, \<^verbatim>\<open>sessionStorage\<close>, the default header
    \<^verbatim>\<open>api.defaults.headers.common.Authorization\<close>, \<^verbatim>\<open>location\<close> and the assignments to
    \<^verbatim>\<open>location.href\<close> are the fields of one state record that each function returns
    updated; storage operations are taken to succeed (a browser that denies storage access
    is not modelled);
  \<^item> the configuration constants \<^verbatim>\<open>AUTH_MODE\<close> and \<^verbatim>\<open>BASE_URL\<close> are arguments;
  \<^item> a rejected promise is the value \<open>Reject\<close>, a fulfilled one \<open>Resolve\<close>; a call that
    throws is the value \<open>Throws\<close>, with the state it leaves behind.
\<close>

subsection \<open>Configuration\<close>

datatype auth_mode = Local | Basic | Hybrid

definition AUTH_BASIC_KEY_PRIMARY :: string where
  "AUTH_BASIC_KEY_PRIMARY = ''fw_auth''"

definition AUTH_BASIC_KEY_SECOND :: string where
  "AUTH_BASIC_KEY_SECOND = ''fw_auth_basic''"

definition AUTH_LOCAL_KEY :: string where
  "AUTH_LOCAL_KEY = ''fw_auth_local''"

definition RETURN_TO_KEY :: string where
  "RETURN_TO_KEY = ''return_to''"

text \<open>
  \<^verbatim>\<open>BASE_URL = (import.meta.env.BASE_URL || "/").replace(/\/+$/, "")\<close>: the configured base
  path without its trailing slashes.
\<close>

definition BASE_URL :: "string \<Rightarrow> string" where
  "BASE_URL env_base =
     rev (dropWhile (\<lambda>c. c = CHR ''/'') (rev (if env_base = [] then ''/'' else env_base)))"

subsection \<open>Strings\<close>

text \<open>
  A JavaScript string is a sequence of UTF-16 code units. What a user types (a login, a
  password, a name) is a list of code units, \<open>jstring\<close>; \<open>latin1\<close> turns a literal of 8-bit
  characters into one. Storage keys, paths, header names and the header values built here
  are 8-bit strings.
\<close>

type_synonym jstring = "nat list"

definition latin1 :: "string \<Rightarrow> jstring" where
  "latin1 s = map of_char s"

text \<open>What a synchronous call does: it returns, or it throws.\<close>

datatype 'a attempt = Returns 'a | Throws

subsection \<open>Stored values\<close>

text \<open>
  A \<^verbatim>\<open>localStorage\<close> entry is a string; the readers only look at what \<^verbatim>\<open>JSON.parse\<close> makes
  of it. An entry is therefore one of: \<open>Broken raw\<close>, a string \<open>raw\<close> on which
  \<^verbatim>\<open>JSON.parse\<close> throws (the empty string is one); \<open>JsonNull\<close>, a JSON text whose value has
  no properties (\<^verbatim>\<open>null\<close>, a number, a boolean), so that \<^verbatim>\<open>parsed?.username\<close> is
  \<^verbatim>\<open>undefined\<close>; \<open>JsonObj s\<close>, the text of an object whose fields have the declared types
  of \<^verbatim>\<open>BasicStored\<close> and \<^verbatim>\<open>LocalStored\<close>, each possibly missing. \<open>exp = None\<close> is a missing
  expiry, for which \<^verbatim>\<open>Number(parsed.exp)\<close> is \<^verbatim>\<open>NaN\<close>. Timestamps and numbers of days
  are integers (milliseconds since the epoch, in the range where a double is exact).
\<close>

record stored =
  username :: "jstring option"
  password :: "jstring option"
  exp :: "int option"

datatype item = Broken string | JsonNull | JsonObj stored

record world =
  localStorage :: "string \<rightharpoonup> item"
  sessionStorage :: "string \<rightharpoonup> string"
  common_Authorization :: "string option"
  pathname :: string
  search :: string
  hrefs :: "string list"

text \<open>
  \<open>hrefs\<close> lists the values assigned to \<^verbatim>\<open>location.href\<close>, oldest first. An assignment
  starts a navigation; the document that made it keeps its \<open>pathname\<close> and \<open>search\<close>.
\<close>

definition removeItem :: "string \<Rightarrow> world \<Rightarrow> world" where
  "removeItem key w = w\<lparr>localStorage := (localStorage w)(key := None)\<rparr>"

definition setItem :: "string \<Rightarrow> item \<Rightarrow> world \<Rightarrow> world" where
  "setItem key v w = w\<lparr>localStorage := (localStorage w)(key \<mapsto> v)\<rparr>"

text \<open>JavaScript truthiness of an optional string: \<^verbatim>\<open>undefined\<close> and \<^verbatim>\<open>""\<close> are falsy.\<close>

definition truthy :: "'a list option \<Rightarrow> bool" where
  "truthy v = (case v of None \<Rightarrow> False | Some s \<Rightarrow> s \<noteq> [])"

text \<open>\<^verbatim>\<open>Date.now() > Number(parsed.exp)\<close>; a comparison with \<^verbatim>\<open>NaN\<close> is false.\<close>

definition expired :: "int \<Rightarrow> int option \<Rightarrow> bool" where
  "expired now e = (case e of None \<Rightarrow> False | Some t \<Rightarrow> now > t)"

text \<open>A value interpolated into a template literal.\<close>

definition str :: "string option \<Rightarrow> string" where
  "str v = (case v of None \<Rightarrow> ''undefined'' | Some s \<Rightarrow> s)"

definition jstr :: "jstring option \<Rightarrow> jstring" where
  "jstr v = (case v of None \<Rightarrow> latin1 ''undefined'' | Some s \<Rightarrow> s)"

subsection \<open>Base64\<close>

text \<open>
  \<^verbatim>\<open>btoa\<close> encodes a string whose code units are all below 256 and throws
  \<^verbatim>\<open>InvalidCharacterError\<close> on any other string: the result \<open>None\<close>.
\<close>

definition b64_alphabet :: string where
  "b64_alphabet = ''ABCDEFGHIJKLMNOPQRSTUVWXYZabcdefghijklmnopqrstuvwxyz0123456789+/''"

definition b64_digit :: "nat \<Rightarrow> char" where
  "b64_digit i = b64_alphabet ! (i mod 64)"

fun b64_encode :: "nat list \<Rightarrow> string" where
  "b64_encode [] = []"
| "b64_encode [a] =
     [b64_digit (a div 4), b64_digit ((a mod 4) * 16), CHR ''='', CHR ''='']"
| "b64_encode [a, b] =
     [b64_digit (a div 4), b64_digit ((a mod 4) * 16 + b div 16),
      b64_digit ((b mod 16) * 4), CHR ''='']"
| "b64_encode (a # b # c # rest) =
     [b64_digit (a div 4), b64_digit ((a mod 4) * 16 + b div 16),
      b64_digit ((b mod 16) * 4 + c div 64), b64_digit (c mod 64)] @ b64_encode rest"

definition btoa :: "jstring \<Rightarrow> string option" where
  "btoa s = (if list_all (\<lambda>c. c < 256) s then Some (b64_encode s) else None)"

text \<open>
  \<^verbatim>\<open>`Basic ${btoa(`${username}:${password}`)}`\<close>, the value every caller of \<^verbatim>\<open>btoa\<close> builds;
  \<open>None\<close> when \<^verbatim>\<open>btoa\<close> throws.
\<close>

definition basic_header :: "jstring \<Rightarrow> jstring \<Rightarrow> string option" where
  "basic_header u p =
     (case btoa (u @ latin1 '':'' @ p) of None \<Rightarrow> None | Some t \<Rightarrow> Some (''Basic '' @ t))"

definition basic_token :: "stored \<Rightarrow> string option" where
  "basic_token s = basic_header (jstr (username s)) (jstr (password s))"

subsection \<open>Credential storage\<close>

text \<open>
  \<^verbatim>\<open>tryRead\<close>, the local function of \<^verbatim>\<open>readBasicAuth\<close>. The \<^verbatim>\<open>catch\<close> branch is the branch of
  \<open>Broken\<close> with a non-empty string: an empty string leaves at \<^verbatim>\<open>if (!raw) return null\<close>
  before \<^verbatim>\<open>JSON.parse\<close> is reached.
\<close>

definition tryRead :: "int \<Rightarrow> string \<Rightarrow> world \<Rightarrow> stored option \<times> world" where
  "tryRead now key w =
     (case localStorage w key of
        None \<Rightarrow> (None, w)
      | Some (Broken raw) \<Rightarrow> if raw = [] then (None, w) else (None, removeItem key w)
      | Some JsonNull \<Rightarrow> (None, removeItem key w)
      | Some (JsonObj parsed) \<Rightarrow>
          if \<not> truthy (username parsed) \<or> \<not> truthy (password parsed)
             \<or> expired now (exp parsed)
          then (None, removeItem key w)
          else (Some parsed, w))"

text \<open>
  \<^verbatim>\<open>tryRead(AUTH_BASIC_KEY_PRIMARY) || tryRead(AUTH_BASIC_KEY_SECOND)\<close>: the second key is
  read, at the second clock reading, only when the first gives \<^verbatim>\<open>null\<close>.
\<close>

definition readBasicAuth :: "int \<times> int \<Rightarrow> world \<Rightarrow> stored option \<times> world" where
  "readBasicAuth ts w =
     (case tryRead (fst ts) AUTH_BASIC_KEY_PRIMARY w of
        (Some s, w') \<Rightarrow> (Some s, w')
      | (None, w') \<Rightarrow> tryRead (snd ts) AUTH_BASIC_KEY_SECOND w')"

text \<open>
  \<^verbatim>\<open>rememberBasicAuth\<close> writes the record first and calls \<^verbatim>\<open>btoa\<close> afterwards: when \<^verbatim>\<open>btoa\<close>
  throws, the record is written and the default header is not set.
\<close>

definition rememberBasicAuth ::
  "int \<Rightarrow> jstring \<Rightarrow> jstring \<Rightarrow> int \<Rightarrow> world \<Rightarrow> unit attempt \<times> world" where
  "rememberBasicAuth now u p days w =
     (let e = now + days * 24 * 3600 * 1000;
          s = \<lparr>username = Some u, password = Some p, exp = Some e\<rparr>;
          w1 = setItem AUTH_BASIC_KEY_PRIMARY (JsonObj s) w
      in case basic_header u p of
           None \<Rightarrow> (Throws, w1)
         | Some h \<Rightarrow> (Returns (), w1\<lparr>common_Authorization := Some h\<rparr>))"

definition readLocalAuth :: "int \<Rightarrow> world \<Rightarrow> stored option \<times> world" where
  "readLocalAuth now w =
     (case localStorage w AUTH_LOCAL_KEY of
        None \<Rightarrow> (None, w)
      | Some (Broken raw) \<Rightarrow>
          if raw = [] then (None, w) else (None, removeItem AUTH_LOCAL_KEY w)
      | Some JsonNull \<Rightarrow> (None, removeItem AUTH_LOCAL_KEY w)
      | Some (JsonObj parsed) \<Rightarrow>
          if \<not> truthy (username parsed) \<or> expired now (exp parsed)
          then (None, removeItem AUTH_LOCAL_KEY w)
          else (Some parsed, w))"

definition rememberLocalAuth :: "int \<Rightarrow> jstring \<Rightarrow> int \<Rightarrow> world \<Rightarrow> world" where
  "rememberLocalAuth now u days w =
     (let e = now + days * 24 * 3600 * 1000
      in setItem AUTH_LOCAL_KEY (JsonObj \<lparr>username = Some u, password = None, exp = Some e\<rparr>) w)"

text \<open>
  The two writes of \<^verbatim>\<open>rememberHybridAuth\<close> read the clock one after the other; the second
  is not reached when the first call throws.
\<close>

definition rememberHybridAuth ::
  "int \<times> int \<Rightarrow> jstring \<Rightarrow> jstring \<Rightarrow> int \<Rightarrow> world \<Rightarrow> unit attempt \<times> world" where
  "rememberHybridAuth ts u p days w =
     (case rememberBasicAuth (fst ts) u p days w of
        (Throws, w1) \<Rightarrow> (Throws, w1)
      | (Returns _, w1) \<Rightarrow> (Returns (), rememberLocalAuth (snd ts) u days w1))"

definition rememberAuth ::
  "auth_mode \<Rightarrow> int \<times> int \<Rightarrow> jstring \<Rightarrow> jstring \<Rightarrow> int \<Rightarrow> world
     \<Rightarrow> unit attempt \<times> world" where
  "rememberAuth mode ts u p days w =
     (if mode = Local then (Returns (), rememberLocalAuth (fst ts) u days w)
      else if mode = Hybrid then rememberHybridAuth ts u p days w
      else rememberBasicAuth (fst ts) u p days w)"


definition dropAuth :: "world \<Rightarrow> world" where
  "dropAuth w =
     (removeItem AUTH_BASIC_KEY_SECOND
        (removeItem AUTH_BASIC_KEY_PRIMARY (removeItem AUTH_LOCAL_KEY w)))
       \<lparr>common_Authorization := None\<rparr>"

subsection \<open>Navigation and the return target\<close>

text \<open>
  \<^verbatim>\<open>go\<close> assigns \<^verbatim>\<open>location.href\<close> unless the current path and query string are already
  the target.
\<close>

definition go :: "string \<Rightarrow> string \<Rightarrow> world \<Rightarrow> world" where
  "go base to w =
     (let path = (if prefix ''/'' to then to else ''/'' @ to);
          href = base @ path
      in if pathname w @ search w \<noteq> href then w\<lparr>hrefs := hrefs w @ [href]\<rparr> else w)"

text \<open>
  \<^verbatim>\<open>saveReturnTo(path?)\<close>: \<^verbatim>\<open>path || location.pathname + location.search\<close> is stored under
  the session key.
\<close>

definition saveReturnTo :: "string option \<Rightarrow> world \<Rightarrow> world" where
  "saveReturnTo path w =
     (let p = (if truthy path then str path else pathname w @ search w)
      in w\<lparr>sessionStorage := (sessionStorage w)(RETURN_TO_KEY \<mapsto> p)\<rparr>)"

text \<open>
  \<^verbatim>\<open>consumeReturnTo\<close> returns what \<^verbatim>\<open>getItem\<close> returned and removes the entry when the value
  is truthy.
\<close>

definition consumeReturnTo :: "world \<Rightarrow> string option \<times> world" where
  "consumeReturnTo w =
     (let v = sessionStorage w RETURN_TO_KEY
      in if truthy v
         then (v, w\<lparr>sessionStorage := (sessionStorage w)(RETURN_TO_KEY := None)\<rparr>)
         else (v, w))"

subsection \<open>Header containers\<close>

text \<open>
  axios hands the interceptors either an \<^verbatim>\<open>AxiosHeaders\<close> object (with \<^verbatim>\<open>get\<close> and \<^verbatim>\<open>set\<close>,
  which match header names without regard to case) or a plain object, or nothing. Both
  carry their entries in insertion order. Header values are strings. An \<^verbatim>\<open>AxiosHeaders\<close>
  object holds a name under one spelling only, since its \<^verbatim>\<open>set\<close> replaces the entry of the
  name in any spelling; a plain object can hold two spellings side by side.
\<close>

datatype headers =
  NoHeaders
  | AxiosHeaders "(string \<times> string) list"
  | PlainObject "(string \<times> string) list"

text \<open>\<^verbatim>\<open>toLowerCase\<close> on 8-bit characters: A to Z and the accented capitals of Latin-1.\<close>

definition lower_char :: "char \<Rightarrow> char" where
  "lower_char c =
     (let n = (of_char c :: nat)
      in if (65 \<le> n \<and> n \<le> 90) \<or> (192 \<le> n \<and> n \<le> 222 \<and> n \<noteq> 215)
         then char_of (n + 32) else c)"

definition toLowerCase :: "string \<Rightarrow> string" where
  "toLowerCase s = map lower_char s"

text \<open>The loop of \<^verbatim>\<open>getHeaderValue\<close> over \<^verbatim>\<open>Object.keys(bag)\<close>: the first key that matches.\<close>

fun scan_keys :: "(string \<times> string) list \<Rightarrow> string \<Rightarrow> string option" where
  "scan_keys [] nameLower = None"
| "scan_keys ((k, v) # bag) nameLower =
     (if toLowerCase k = nameLower then Some v else scan_keys bag nameLower)"

text \<open>\<^verbatim>\<open>AxiosHeaders.get(name)\<close>: the value of the entry whose name matches without regard to case.\<close>

definition headers_get :: "(string \<times> string) list \<Rightarrow> string \<Rightarrow> string option" where
  "headers_get hs key = scan_keys hs (toLowerCase key)"

definition getHeaderValue :: "headers \<Rightarrow> string \<Rightarrow> string option" where
  "getHeaderValue hdrs nameLower =
     (case hdrs of
        NoHeaders \<Rightarrow> None
      | AxiosHeaders hs \<Rightarrow>
          (case headers_get hs nameLower of
             Some v \<Rightarrow> Some v
           | None \<Rightarrow> scan_keys hs nameLower)
      | PlainObject hs \<Rightarrow> scan_keys hs nameLower)"

text \<open>
  \<^verbatim>\<open>AxiosHeaders.set(name, value)\<close> overwrites the entry whose name matches without regard to
  case, or adds one; an assignment to a property of a plain object does the same for the
  exact name.
\<close>

fun headers_set :: "string \<Rightarrow> string \<Rightarrow> (string \<times> string) list \<Rightarrow> (string \<times> string) list" where
  "headers_set key v [] = [(key, v)]"
| "headers_set key v ((k, x) # hs) =
     (if toLowerCase k = toLowerCase key then (k, v) # hs
      else (k, x) # headers_set key v hs)"

fun assign :: "string \<Rightarrow> string \<Rightarrow> (string \<times> string) list \<Rightarrow> (string \<times> string) list" where
  "assign key v [] = [(key, v)]"
| "assign key v ((k, x) # hs) =
     (if k = key then (k, v) # hs else (k, x) # assign key v hs)"

definition set_Authorization :: "string \<Rightarrow> headers \<Rightarrow> headers" where
  "set_Authorization v hdrs =
     (case hdrs of
        AxiosHeaders hs \<Rightarrow> AxiosHeaders (headers_set ''Authorization'' v hs)
      | PlainObject hs \<Rightarrow> PlainObject (assign ''Authorization'' v hs)
      | NoHeaders \<Rightarrow> PlainObject [(''Authorization'', v)])"

text \<open>The entries of a container, in their order.\<close>

definition entries :: "headers \<Rightarrow> (string \<times> string) list" where
  "entries hdrs = (case hdrs of NoHeaders \<Rightarrow> [] | AxiosHeaders hs \<Rightarrow> hs | PlainObject hs \<Rightarrow> hs)"

text \<open>
  The \<^verbatim>\<open>Authorization\<close> header a container puts on the wire. Header names are matched
  without regard to case, by axios and by HTTP, so it is the value of the first entry
  whose name is \<^verbatim>\<open>authorization\<close> in any spelling; \<open>None\<close> when there is no such entry.
\<close>

definition authorization_of :: "headers \<Rightarrow> string option" where
  "authorization_of hdrs =
     map_option snd (find (\<lambda>e. toLowerCase (fst e) = ''authorization'') (entries hdrs))"

subsection \<open>The request interceptor\<close>

text \<open>
  The interceptor returns the configuration with its headers, or throws where \<^verbatim>\<open>btoa\<close>
  throws on the stored pair.
\<close>

definition request_interceptor ::
  "auth_mode \<Rightarrow> int \<times> int \<Rightarrow> headers \<Rightarrow> world \<Rightarrow> headers attempt \<times> world" where
  "request_interceptor mode ts hdrs w =
     (if mode \<noteq> Local then
        (case readBasicAuth ts w of
           (Some s, w') \<Rightarrow>
             (case basic_token s of
                None \<Rightarrow> (Throws, w')
              | Some h \<Rightarrow> (Returns (set_Authorization h hdrs), w'))
         | (None, w') \<Rightarrow> (Returns hdrs, w'))
      else (Returns hdrs, w))"

text \<open>
  What goes on the wire for a request: nothing when the interceptor throws (axios rejects
  the request before the transport); else the request with the \<^verbatim>\<open>Authorization\<close> header
  of its headers after the interceptor, and where they have none the default of the
  shared client (axios puts \<^verbatim>\<open>defaults.headers.common\<close> under the headers of every request).
  \<open>Sent None\<close> is a request without an \<^verbatim>\<open>Authorization\<close> header.
\<close>

datatype sent = Not_sent | Sent "string option"

definition sent_Authorization ::
  "auth_mode \<Rightarrow> int \<times> int \<Rightarrow> headers \<Rightarrow> world \<Rightarrow> sent \<times> world" where
  "sent_Authorization mode ts hdrs w =
     (case request_interceptor mode ts hdrs w of
        (Throws, w') \<Rightarrow> (Not_sent, w')
      | (Returns hdrs', w') \<Rightarrow>
          (case authorization_of hdrs' of
             Some v \<Rightarrow> (Sent (Some v), w')
           | None \<Rightarrow> (Sent (common_Authorization w'), w')))"

subsection \<open>The response interceptor\<close>

text \<open>
  The fields of an error the handler reads: \<^verbatim>\<open>err.code\<close> when it is a string, the status
  of \<^verbatim>\<open>err.response\<close> (\<open>None\<close> when there is no response) and \<^verbatim>\<open>err.config?.headers\<close>.
\<close>

record axios_error =
  err_code :: "string option"
  err_status :: "nat option"
  err_headers :: headers

text \<open>
  The exception of \<^verbatim>\<open>btoa\<close> as the handler sees it: its \<^verbatim>\<open>code\<close> is a number, and it has
  neither a response nor a configuration.
\<close>

definition invalid_character :: axios_error where
  "invalid_character = \<lparr>err_code = None, err_status = None, err_headers = NoHeaders\<rparr>"

datatype ('e, 'a) promise = Resolve 'a | Reject 'e

text \<open>
  The data of a response: a profile as the server sends it and as the slices keep it.
  \<^verbatim>\<open>id\<close> and \<^verbatim>\<open>user_id\<close> may each be missing; the other fields of the API type play no
  part here. Only requests for a profile are modelled, so a response promise carries one.
\<close>

record profile =
  id' :: "int option"
  user_id :: "int option"
  name :: jstring
  ava :: string

text \<open>\<^verbatim>\<open>path.replace(BASE_URL, "")\<close> removes the first occurrence of the pattern.\<close>

fun remove_first :: "string \<Rightarrow> string \<Rightarrow> string" where
  "remove_first pat [] = []"
| "remove_first pat (c # cs) =
     (if prefix pat (c # cs) then drop (length pat) (c # cs) else c # remove_first pat cs)"

text \<open>One alternative \<^verbatim>\<open>word(\/|$)\<close> of the whitelist expression, after the leading \<^verbatim>\<open>^\/\<close>.\<close>

definition segment :: "string \<Rightarrow> string \<Rightarrow> bool" where
  "segment word s =
     (prefix (''/'' @ word) s \<and>
      (let r = drop (Suc (length word)) s in r = [] \<or> hd r = CHR ''/''))"

definition isWhitelisted :: "string \<Rightarrow> string \<Rightarrow> bool" where
  "isWhitelisted base path =
     (let s = remove_first base path
      in segment ''error'' s \<or> segment ''network'' s \<or> segment ''profile'' s
         \<or> segment ''register'' s)"

definition handled :: "nat list" where
  "handled = [404, 409, 418, 429, 500, 502, 503, 504]"

text \<open>\<^verbatim>\<open>String(status)\<close> for a status code.\<close>

fun digits :: "nat \<Rightarrow> string" where
  "digits n =
     (if n < 10 then [char_of (48 + n)] else digits (n div 10) @ [char_of (48 + n mod 10)])"

declare digits.simps [simp del]

definition network_failure :: "axios_error \<Rightarrow> bool" where
  "network_failure err = (err_code err = Some ''ERR_NETWORK'' \<or> err_status err = None)"

text \<open>
  The error handler of \<^verbatim>\<open>api.interceptors.response.use\<close>. Every branch returns
  \<^verbatim>\<open>Promise.reject(err)\<close>. An error that has passed the first test has a response, so the
  branch \<open>None\<close> below the test is never taken.
\<close>

definition onRejected ::
  "auth_mode \<Rightarrow> string \<Rightarrow> axios_error \<Rightarrow> world \<Rightarrow> (axios_error, profile) promise \<times> world" where
  "onRejected mode base err w =
     (if network_failure err then
        (Reject err,
         if \<not> prefix (base @ ''/network'') (pathname w) then go base ''/network'' w else w)
      else
        (case err_status err of
           None \<Rightarrow> (Reject err, w)
         | Some status \<Rightarrow>
             (let path = pathname w; search' = search w in
              if (status = 401 \<or> status = 403) \<and> mode = Local then (Reject err, w)
              else
                (let skipAuthRedirect =
                       (getHeaderValue (err_headers err) ''x-skip-auth-redirect'' = Some ''1'');
                     whitelisted = isWhitelisted base path
                 in if (status = 401 \<or> status = 403) \<and> \<not> skipAuthRedirect then
                      (Reject err,
                       (let w1 = dropAuth w
                        in if \<not> whitelisted \<and> path \<noteq> base @ ''/profile''
                           then go base ''/profile?expired=1''
                                  (saveReturnTo (Some (path @ search')) w1)
                           else w1))
                    else
                      (Reject err,
                       if status \<in> set handled then
                         (if \<not> prefix (base @ ''/error/'') path
                          then go base (''/error/'' @ digits status) w else w)
                       else w)))))"

text \<open>Several failed requests, handled one after the other.\<close>

fun failures :: "auth_mode \<Rightarrow> string \<Rightarrow> axios_error list \<Rightarrow> world \<Rightarrow> world" where
  "failures mode base [] w = w"
| "failures mode base (e # es) w =
     failures mode base es (snd (onRejected mode base e w))"

text \<open>
  What a browser guarantees of \<^verbatim>\<open>location\<close>, and a deployment of the base path: the path
  holds no question mark, the query string is empty or starts with one, and the base
  path holds none.
\<close>

definition well_formed_location :: "string \<Rightarrow> world \<Rightarrow> bool" where
  "well_formed_location base w =
     (CHR ''?'' \<notin> set base \<and> CHR ''?'' \<notin> set (pathname w)
      \<and> (search w = [] \<or> hd (search w) = CHR ''?''))"

subsection \<open>Requests through the shared client\<close>

text \<open>
  What the transport gives back for one request is an argument: an answer with its data,
  or a failure with the \<^verbatim>\<open>code\<close> of the error and the status of its response, if it has one.
\<close>

datatype reply = Answer profile | Failure "string option" "nat option"

text \<open>
  \<^verbatim>\<open>api.get\<close>: the request interceptor, the transport, and on a failure the error handler
  of the response interceptor, with the headers of the request as \<^verbatim>\<open>err.config.headers\<close>.
  axios chains the interceptors with \<^verbatim>\<open>then\<close>, so an exception of the request interceptor
  skips the transport and reaches the same error handler.
\<close>

definition api_get ::
  "auth_mode \<Rightarrow> string \<Rightarrow> int \<times> int \<Rightarrow> headers \<Rightarrow> reply \<Rightarrow> world
     \<Rightarrow> (axios_error, profile) promise \<times> world" where
  "api_get mode base ts hdrs r w =
     (case request_interceptor mode ts hdrs w of
        (Throws, w1) \<Rightarrow> onRejected mode base invalid_character w1
      | (Returns hdrs', w1) \<Rightarrow>
          (case r of
             Answer data \<Rightarrow> (Resolve data, w1)
           | Failure c st \<Rightarrow>
               onRejected mode base
                 \<lparr>err_code = c, err_status = st, err_headers = hdrs'\<rparr> w1))"

definition myProfile ::
  "auth_mode \<Rightarrow> string \<Rightarrow> int \<times> int \<Rightarrow> reply \<Rightarrow> world
     \<Rightarrow> (axios_error, profile) promise \<times> world" where
  "myProfile mode base ts r w = api_get mode base ts NoHeaders r w"

definition myProfileSilent ::
  "auth_mode \<Rightarrow> string \<Rightarrow> int \<times> int \<Rightarrow> reply \<Rightarrow> world
     \<Rightarrow> (axios_error, profile) promise \<times> world" where
  "myProfileSilent mode base ts r w =
     api_get mode base ts (PlainObject [(''X-Skip-Auth-Redirect'', ''1'')]) r w"

text \<open>
  \<^verbatim>\<open>fetchMyProfileWithBasic\<close> calls \<^verbatim>\<open>btoa\<close> before the request: where it throws, the
  asynchronous function rejects with the exception and no request is made.
\<close>

definition fetchMyProfileWithBasic ::
  "auth_mode \<Rightarrow> string \<Rightarrow> int \<times> int \<Rightarrow> jstring \<Rightarrow> jstring \<Rightarrow> reply \<Rightarrow> world
     \<Rightarrow> (axios_error, profile) promise \<times> world" where
  "fetchMyProfileWithBasic mode base ts u p r w =
     (case basic_header u p of
        None \<Rightarrow> (Reject invalid_character, w)
      | Some h \<Rightarrow> api_get mode base ts (PlainObject [(''Authorization'', h)]) r w)"

subsection \<open>Login in \<^verbatim>\<open>endpoints.ts\<close>\<close>

text \<open>
  \<^verbatim>\<open>loginUserApi\<close> remembers the credentials first (clock readings \<open>tr\<close>, seven days) and
  then, outside the local mode, asks for the profile (clock readings \<open>tq\<close>). An exception
  of \<^verbatim>\<open>rememberAuth\<close> rejects the promise of the asynchronous function.
\<close>

definition loginUserApi ::
  "auth_mode \<Rightarrow> string \<Rightarrow> int \<times> int \<Rightarrow> int \<times> int \<Rightarrow> jstring \<Rightarrow> jstring \<Rightarrow> reply \<Rightarrow> world
     \<Rightarrow> (axios_error, profile) promise \<times> world" where
  "loginUserApi mode base tr tq login' password' r w =
     (case rememberAuth mode tr login' password' 7 w of
        (Throws, w1) \<Rightarrow> (Reject invalid_character, w1)
      | (Returns _, w1) \<Rightarrow>
          if mode = Local
          then (Resolve \<lparr>id' = Some 0, user_id = Some 0, name = login', ava = []\<rparr>, w1)
          else myProfile mode base tq r w1)"

subsection \<open>Login in the auth slice\<close>

text \<open>
  The strings given to \<^verbatim>\<open>rejectWithValue\<close>, by their meaning: the login is too short; wrong
  login or password; login error (the text the facade uses when the caught value has no
  \<^verbatim>\<open>message\<close>).
\<close>

datatype message = Login_too_short | Wrong_login_or_password | Login_error

text \<open>
  \<^verbatim>\<open>trim\<close> removes white space and line terminators from both ends: tab, line feed,
  vertical tab, form feed, carriage return, space, the no-break space, and the spaces and
  separators beyond Latin-1 (U+1680, U+2000 to U+200A, U+2028, U+2029, U+202F, U+205F,
  U+3000, U+FEFF).
\<close>

definition is_space :: "nat \<Rightarrow> bool" where
  "is_space c =
     (c \<in> {9, 10, 11, 12, 13, 32, 160, 5760, 8232, 8233, 8239, 8287, 12288, 65279}
      \<or> (8192 \<le> c \<and> c \<le> 8202))"

definition trim :: "jstring \<Rightarrow> jstring" where
  "trim s = rev (dropWhile is_space (rev (dropWhile is_space s)))"

text \<open>\<^verbatim>\<open>p?.id ?? p?.user_id ?? 0\<close>\<close>

definition normalizeUser :: "profile \<Rightarrow> profile" where
  "normalizeUser p =
     p\<lparr>id' := Some (case id' p of Some i \<Rightarrow> i
                       | None \<Rightarrow> (case user_id p of Some i \<Rightarrow> i | None \<Rightarrow> 0))\<rparr>"

text \<open>The placeholder \<^verbatim>\<open>{ id: 0, name: username, ava: "" }\<close> of the local path.\<close>

definition localMe :: "jstring \<Rightarrow> profile" where
  "localMe u = \<lparr>id' = Some 0, user_id = None, name = u, ava = []\<rparr>"

text \<open>An optional \<^verbatim>\<open>remember\<close> with the default \<^verbatim>\<open>true\<close>.\<close>

definition remember_or_default :: "bool option \<Rightarrow> bool" where
  "remember_or_default r = (case r of None \<Rightarrow> True | Some b \<Rightarrow> b)"

definition loginLocal ::
  "int \<Rightarrow> jstring \<Rightarrow> bool option \<Rightarrow> world \<Rightarrow> (message, profile) promise \<times> world" where
  "loginLocal now u remember w =
     (if length (trim u) < 3 then (Reject Login_too_short, w)
      else (Resolve (localMe u),
            if remember_or_default remember then rememberLocalAuth now u 7 w else w))"

text \<open>
  \<^verbatim>\<open>loginBasic\<close> and \<^verbatim>\<open>loginHybrid\<close>: the verification request reads the clock at \<open>tq\<close>,
  what is remembered afterwards at \<open>tr\<close>. The \<^verbatim>\<open>catch\<close> block is entered when the request
  is rejected and when remembering throws.
\<close>

definition loginBasic ::
  "auth_mode \<Rightarrow> string \<Rightarrow> int \<times> int \<Rightarrow> int \<times> int \<Rightarrow> jstring \<Rightarrow> jstring \<Rightarrow> reply \<Rightarrow> world
     \<Rightarrow> (message, profile) promise \<times> world" where
  "loginBasic mode base tq tr u p r w =
     (case fetchMyProfileWithBasic mode base tq u p r w of
        (Resolve raw, w1) \<Rightarrow>
          (case rememberBasicAuth (fst tr) u p 7 w1 of
             (Returns _, w2) \<Rightarrow> (Resolve (normalizeUser raw), w2)
           | (Throws, w2) \<Rightarrow> (Reject Wrong_login_or_password, w2))
      | (Reject e, w1) \<Rightarrow> (Reject Wrong_login_or_password, w1))"

text \<open>
  The \<^verbatim>\<open>catch\<close> block of \<^verbatim>\<open>loginHybrid\<close>, with the clock reading of its
  \<^verbatim>\<open>rememberLocalAuth\<close>.
\<close>

definition hybrid_fallback ::
  "int \<Rightarrow> jstring \<Rightarrow> world \<Rightarrow> (message, profile) promise \<times> world" where
  "hybrid_fallback now u w =
     (if length (trim u) \<ge> 3
      then (Resolve (localMe u), rememberLocalAuth now u 7 w)
      else (Reject Wrong_login_or_password, w))"

definition loginHybrid ::
  "auth_mode \<Rightarrow> string \<Rightarrow> int \<times> int \<Rightarrow> int \<times> int \<Rightarrow> jstring \<Rightarrow> jstring \<Rightarrow> bool option
     \<Rightarrow> reply \<Rightarrow> world \<Rightarrow> (message, profile) promise \<times> world" where
  "loginHybrid mode base tq tr u p remember r w =
     (case fetchMyProfileWithBasic mode base tq u p r w of
        (Resolve raw, w1) \<Rightarrow>
          (case rememberHybridAuth tr u p (if remember_or_default remember then 7 else 1) w1 of
             (Returns _, w2) \<Rightarrow> (Resolve (normalizeUser raw), w2)
           | (Throws, w2) \<Rightarrow> hybrid_fallback (snd tr) u w2)
      | (Reject e, w1) \<Rightarrow> hybrid_fallback (fst tr) u w1)"

text \<open>
  The facade \<^verbatim>\<open>login\<close> dispatches on \<^verbatim>\<open>AUTH_MODE\<close>. What \<^verbatim>\<open>unwrap\<close> throws for a rejected
  thunk is the string given to \<^verbatim>\<open>rejectWithValue\<close>, which has no \<^verbatim>\<open>message\<close>, so the facade
  rejects with its own text.
\<close>

definition login ::
  "auth_mode \<Rightarrow> string \<Rightarrow> int \<times> int \<Rightarrow> int \<times> int \<Rightarrow> jstring \<Rightarrow> jstring \<Rightarrow> bool option
     \<Rightarrow> reply \<Rightarrow> world \<Rightarrow> (message, profile) promise \<times> world" where
  "login mode base tq tr u p remember r w =
     (case (if mode = Local then loginLocal (fst tr) u remember w
            else if mode = Hybrid then loginHybrid mode base tq tr u p remember r w
            else loginBasic mode base tq tr u p r w) of
        (Resolve me, w') \<Rightarrow> (Resolve me, w')
      | (Reject e, w') \<Rightarrow> (Reject Login_error, w'))"

subsection \<open>Where to go after a login\<close>

text \<open>
  The second effect of \<^verbatim>\<open>ProfilePage\<close>, from the authentication flag, the path
  \<^verbatim>\<open>location.state?.from?.pathname\<close> of the router and the session storage: the path given
  to \<^verbatim>\<open>nav\<close>, if \<^verbatim>\<open>nav\<close> is called. (The two profile requests the effect starts outside the
  local mode run later, on their own.)
\<close>

definition ProfilePage_effect :: "bool \<Rightarrow> string option \<Rightarrow> world \<Rightarrow> string option \<times> world" where
  "ProfilePage_effect isAuthed from w =
     (if \<not> isAuthed then (None, w)
      else if truthy from then (from, w)
      else
        (let back = sessionStorage w RETURN_TO_KEY
         in if truthy back
            then (back, w\<lparr>sessionStorage := (sessionStorage w)(RETURN_TO_KEY := None)\<rparr>)
            else (None, w)))"

text \<open>
  What \<^verbatim>\<open>handleLogin\<close> of the login form does once the login has succeeded: both branches
  of its test of the \<^verbatim>\<open>expired\<close> flag call \<^verbatim>\<open>nav(target || "/")\<close>.
\<close>

definition handleLogin_redirect :: "world \<Rightarrow> string \<times> world" where
  "handleLogin_redirect w =
     (case consumeReturnTo w of
        (target, w') \<Rightarrow> ((if truthy target then str target else ''/''), w'))"

subsection \<open>What the application does with the shared client\<close>




subsection \<open>What the specification calls an unusable record\<close>

text \<open>
  The conditions under which a stored entry must be dropped, in the words of the
  specification with the strict comparison of the code: the text does not parse (and is
  not empty), a required field is missing or empty, or the expiry lies before the clock
  reading.
\<close>

definition unusable_basic :: "int \<Rightarrow> item \<Rightarrow> bool" where
  "unusable_basic now it =
     (case it of
        Broken raw \<Rightarrow> raw \<noteq> []
      | JsonNull \<Rightarrow> True
      | JsonObj s \<Rightarrow>
          username s = None \<or> username s = Some [] \<or> password s = None
          \<or> password s = Some [] \<or> (case exp s of None \<Rightarrow> False | Some t \<Rightarrow> t < now))"

definition unusable_local :: "int \<Rightarrow> item \<Rightarrow> bool" where
  "unusable_local now it =
     (case it of
        Broken raw \<Rightarrow> raw \<noteq> []
      | JsonNull \<Rightarrow> True
      | JsonObj s \<Rightarrow>
          username s = None \<or> username s = Some []
          \<or> (case exp s of None \<Rightarrow> False | Some t \<Rightarrow> t < now))"

subsection \<open>The whitelist in the words of the specification\<close>

text \<open>
  The paths exempt from the redirect to the login, given without the base path: the error
  pages, the network page, the profile page (the login surface) and the registration
  page, each with what lies below it.
\<close>

definition exempt :: "string \<Rightarrow> bool" where
  "exempt rest =
     (rest = ''/error'' \<or> prefix ''/error/'' rest
      \<or> rest = ''/network'' \<or> prefix ''/network/'' rest
      \<or> rest = ''/profile'' \<or> prefix ''/profile/'' rest
      \<or> rest = ''/register'' \<or> prefix ''/register/'' rest)"

subsection \<open>The opt-out header in the words of the claim\<close>

text \<open>
  What a request carries under the name \<^verbatim>\<open>x-skip-auth-redirect\<close>: the value of the first of
  its header entries whose name is that name in any spelling of upper and lower case;
  nothing when it has no such entry or no headers.
\<close>

definition opt_out_value :: "headers \<Rightarrow> string option" where
  "opt_out_value hdrs =
     map_option snd
       (find (\<lambda>e. toLowerCase (fst e) = ''x-skip-auth-redirect'') (entries hdrs))"

subsection \<open>Headers with one spelling of the name\<close>


subsection \<open>The record the client reads\<close>



subsection \<open>Example states\<close>

text \<open>A fresh page at \<^verbatim>\<open>/edit/42\<close> with empty storages and no default header.\<close>

definition fresh :: world where
  "fresh = \<lparr>localStorage = Map.empty, sessionStorage = Map.empty,
            common_Authorization = None, pathname = ''/edit/42'', search = [], hrefs = []\<rparr>"

definition user_pw :: "int \<Rightarrow> stored" where
  "user_pw e =
     \<lparr>username = Some (latin1 ''user''), password = Some (latin1 ''pw''), exp = Some e\<rparr>"

text \<open>
  Every credential entry unusable at the instant 1000: an expired record under the primary
  key, a text that does not parse under the second, an empty user name under the local key.
\<close>

definition expired_everywhere :: world where
  "expired_everywhere =
     fresh\<lparr>localStorage :=
       [AUTH_BASIC_KEY_PRIMARY \<mapsto> JsonObj (user_pw 999),
        AUTH_BASIC_KEY_SECOND \<mapsto> Broken ''{oops'',
        AUTH_LOCAL_KEY \<mapsto> JsonObj \<lparr>username = Some [], password = None, exp = Some 5000\<rparr>]\<rparr>"

text \<open>A record under the primary key whose expiry is the instant 1000.\<close>

definition at_expiry :: world where
  "at_expiry = fresh\<lparr>localStorage := [AUTH_BASIC_KEY_PRIMARY \<mapsto> JsonObj (user_pw 1000)]\<rparr>"

text \<open>Failed requests: no response at all, and responses with the statuses 501 and 403.\<close>

definition no_response :: axios_error where
  "no_response = \<lparr>err_code = Some ''ERR_NETWORK'', err_status = None, err_headers = NoHeaders\<rparr>"

definition status_501 :: axios_error where
  "status_501 =
     \<lparr>err_code = Some ''ERR_BAD_RESPONSE'', err_status = Some 501, err_headers = NoHeaders\<rparr>"

definition status_404 :: axios_error where
  "status_404 =
     \<lparr>err_code = Some ''ERR_BAD_REQUEST'', err_status = Some 404, err_headers = NoHeaders\<rparr>"

definition status_403 :: axios_error where
  "status_403 =
     \<lparr>err_code = Some ''ERR_BAD_REQUEST'', err_status = Some 403, err_headers = NoHeaders\<rparr>"

text \<open>
  Responses with the status 403 to requests with headers of their own: without the opt-out
  header, with it, and with it under two spellings, the first with another value.
\<close>

definition status_403_accept :: axios_error where
  "status_403_accept =
     \<lparr>err_code = Some ''ERR_BAD_REQUEST'', err_status = Some 403,
      err_headers = AxiosHeaders [(''Accept'', ''application/json'')]\<rparr>"

definition status_403_opted_out :: axios_error where
  "status_403_opted_out =
     \<lparr>err_code = Some ''ERR_BAD_REQUEST'', err_status = Some 403,
      err_headers = AxiosHeaders [(''Accept'', ''application/json''),
                                  (''x-skip-auth-redirect'', ''1'')]\<rparr>"

definition status_403_not_opted_out :: axios_error where
  "status_403_not_opted_out =
     \<lparr>err_code = Some ''ERR_BAD_REQUEST'', err_status = Some 403,
      err_headers = PlainObject [(''X-Skip-Auth-Redirect'', ''0''),
                                 (''x-skip-auth-redirect'', ''1'')]\<rparr>"

text \<open>A response with the status 401 to a request that carries the opt-out header.\<close>

definition status_401_silent :: axios_error where
  "status_401_silent =
     \<lparr>err_code = Some ''ERR_BAD_REQUEST'', err_status = Some 401,
      err_headers = PlainObject [(''X-Skip-Auth-Redirect'', ''1'')]\<rparr>"

text \<open>The same page after a login of \<^verbatim>\<open>user\<close> with the password \<^verbatim>\<open>pw\<close> at the instant 0.\<close>

definition logged_in :: world where
  "logged_in = snd (rememberBasicAuth 0 (latin1 ''user'') (latin1 ''pw'') 7 fresh)"

text \<open>The page of the network view.\<close>

definition on_network_view :: world where
  "on_network_view = fresh\<lparr>pathname := ''/network''\<rparr>"

text \<open>The profile page, where the login form is shown, with empty storages.\<close>

definition login_page :: world where
  "login_page = fresh\<lparr>pathname := ''/profile''\<rparr>"

text \<open>The page with a pending return path in the session storage.\<close>

definition with_return_to :: world where
  "with_return_to = fresh\<lparr>sessionStorage := [RETURN_TO_KEY \<mapsto> ''/edit/42'']\<rparr>"

text \<open>The replies of a server that cannot be reached and of one that refuses the credentials.\<close>

definition unreachable :: reply where
  "unreachable = Failure (Some ''ERR_NETWORK'') None"

definition refused :: reply where
  "refused = Failure (Some ''ERR_BAD_REQUEST'') (Some 401)"

subsection \<open>Credentials that a step does not add to\<close>

text \<open>
  A later state holds no credential that an earlier one did not: every entry of the
  local storage is an entry of the earlier one, and the default header is the earlier
  one or deleted.
\<close>

definition nothing_persisted :: "world \<Rightarrow> world \<Rightarrow> bool" where
  "nothing_persisted w w' =
     (localStorage w' \<subseteq>\<^sub>m localStorage w
      \<and> (common_Authorization w' = None \<or> common_Authorization w' = common_Authorization w))"

text \<open>
  A password with the code unit U+044E, which \<^verbatim>\<open>btoa\<close> does not take, and the page with a
  record of that password under the primary key.
\<close>

definition wide_pw :: jstring where
  "wide_pw = latin1 ''pw'' @ [1102]"




section \<open>Properties\<close>

lemmas keys =
  AUTH_BASIC_KEY_PRIMARY_def AUTH_BASIC_KEY_SECOND_def AUTH_LOCAL_KEY_def RETURN_TO_KEY_def

lemma BASE_URL_examples:
  "BASE_URL [] = []" "BASE_URL ''/'' = []" "BASE_URL ''/wiki//'' = ''/wiki''"
  by (simp_all add: BASE_URL_def)

subsection \<open>Strings of 8-bit characters\<close>

lemma latin1_Nil [simp]: "latin1 s = [] \<longleftrightarrow> s = []"
  by (simp add: latin1_def)


lemma latin1_narrow: "list_all (\<lambda>c. c < 256) (latin1 s)"
proof -
  have "(of_char c :: nat) < 256" for c
  proof -
    have "(of_char c :: nat) = of_char c mod 256" by simp
    also have "\<dots> < 256" by simp
    finally show ?thesis .
  qed
  then show ?thesis by (simp add: latin1_def list_all_iff)
qed

lemma btoa_latin1: "btoa (latin1 s) = Some (b64_encode (latin1 s))"
  by (simp add: btoa_def latin1_narrow)

lemma basic_header_latin1:
  "basic_header (latin1 u) (latin1 p) = Some (''Basic '' @ b64_encode (latin1 (u @ '':'' @ p)))"
proof -
  have e: "latin1 u @ latin1 '':'' @ latin1 p = latin1 (u @ '':'' @ p)"
    by (simp add: latin1_def)
  show ?thesis unfolding basic_header_def e btoa_latin1 by simp
qed

lemma user_pw_header:
  "basic_header (latin1 ''user'') (latin1 ''pw'') = Some ''Basic dXNlcjpwdw==''"
proof -
  have "b64_encode (latin1 ''user:pw'') = ''dXNlcjpwdw==''" by code_simp
  then show ?thesis by (simp only: basic_header_latin1 append.simps)
qed

subsection \<open>Reading stored credentials\<close>

lemma tryRead_unusable:
  "localStorage w key = Some it \<Longrightarrow> unusable_basic now it
     \<Longrightarrow> tryRead now key w = (None, removeItem key w)"
  by (auto simp: tryRead_def unusable_basic_def truthy_def expired_def
           split: item.splits option.splits)

lemma readLocalAuth_unusable:
  "localStorage w AUTH_LOCAL_KEY = Some it \<Longrightarrow> unusable_local now it
     \<Longrightarrow> readLocalAuth now w = (None, removeItem AUTH_LOCAL_KEY w)"
  by (auto simp: readLocalAuth_def unusable_local_def truthy_def expired_def
           split: item.splits option.splits)

text \<open>
  Claim C2, as amended. Whenever a reader reaches an entry that is unusable at the clock
  reading of that read (its expiry lies strictly before the reading, or the user name, or
  for the Basic shape the password, is missing or empty, or the non-empty text does not
  parse), the read of that key gives nothing and removes the entry: \<open>tryRead\<close> for either
  Basic key, \<open>readLocalAuth\<close> for the local key. \<open>readBasicAuth\<close> drops an unusable primary
  entry and goes on to the second key; it returns nothing, with both entries gone, when
  the primary entry is absent or unusable and the second is unusable. (A parse error is
  caught inside the reader: it is the branch \<open>Broken\<close>. What the readers do when the
  storage itself throws is not part of this statement.)
\<close>

theorem read_drops_unusable_record:
  "(localStorage w key = Some it \<and> unusable_basic now it \<longrightarrow>
      tryRead now key w = (None, removeItem key w))
   \<and> (localStorage w AUTH_BASIC_KEY_PRIMARY = Some it1 \<and> unusable_basic t1 it1 \<longrightarrow>
      readBasicAuth (t1, t2) w
        = tryRead t2 AUTH_BASIC_KEY_SECOND (removeItem AUTH_BASIC_KEY_PRIMARY w))
   \<and> ((case localStorage w AUTH_BASIC_KEY_PRIMARY of None \<Rightarrow> True
        | Some i \<Rightarrow> unusable_basic t1 i)
       \<and> localStorage w AUTH_BASIC_KEY_SECOND = Some it2 \<and> unusable_basic t2 it2 \<longrightarrow>
      fst (readBasicAuth (t1, t2) w) = None
      \<and> localStorage (snd (readBasicAuth (t1, t2) w)) AUTH_BASIC_KEY_PRIMARY = None
      \<and> localStorage (snd (readBasicAuth (t1, t2) w)) AUTH_BASIC_KEY_SECOND = None)
   \<and> (localStorage w AUTH_LOCAL_KEY = Some it3 \<and> unusable_local now it3 \<longrightarrow>
      readLocalAuth now w = (None, removeItem AUTH_LOCAL_KEY w))"
proof (intro conjI impI)
  assume "localStorage w key = Some it \<and> unusable_basic now it"
  then show "tryRead now key w = (None, removeItem key w)"
    by (simp add: tryRead_unusable)
next
  assume "localStorage w AUTH_BASIC_KEY_PRIMARY = Some it1 \<and> unusable_basic t1 it1"
  then show "readBasicAuth (t1, t2) w
        = tryRead t2 AUTH_BASIC_KEY_SECOND (removeItem AUTH_BASIC_KEY_PRIMARY w)"
    by (simp add: readBasicAuth_def tryRead_unusable)
next
  assume a: "(case localStorage w AUTH_BASIC_KEY_PRIMARY of None \<Rightarrow> True
        | Some i \<Rightarrow> unusable_basic t1 i)
       \<and> localStorage w AUTH_BASIC_KEY_SECOND = Some it2 \<and> unusable_basic t2 it2"
  have ne: "AUTH_BASIC_KEY_PRIMARY \<noteq> AUTH_BASIC_KEY_SECOND" by (simp add: keys)
  obtain w1 where w1: "tryRead t1 AUTH_BASIC_KEY_PRIMARY w = (None, w1)"
    and l1: "localStorage w1 AUTH_BASIC_KEY_PRIMARY = None"
    and l2: "localStorage w1 AUTH_BASIC_KEY_SECOND = Some it2"
  proof (cases "localStorage w AUTH_BASIC_KEY_PRIMARY")
    case None
    with a that[of w] show ?thesis by (simp add: tryRead_def)
  next
    case (Some i)
    with a ne that[of "removeItem AUTH_BASIC_KEY_PRIMARY w"] show ?thesis
      by (simp add: tryRead_unusable removeItem_def)
  qed
  from a l2 have r2:
    "tryRead t2 AUTH_BASIC_KEY_SECOND w1 = (None, removeItem AUTH_BASIC_KEY_SECOND w1)"
    by (simp add: tryRead_unusable)
  have rb: "readBasicAuth (t1, t2) w = (None, removeItem AUTH_BASIC_KEY_SECOND w1)"
    by (simp add: readBasicAuth_def w1 r2)
  show "fst (readBasicAuth (t1, t2) w) = None" by (simp add: rb)
  show "localStorage (snd (readBasicAuth (t1, t2) w)) AUTH_BASIC_KEY_PRIMARY = None"
    using l1 ne by (simp add: rb removeItem_def)
  show "localStorage (snd (readBasicAuth (t1, t2) w)) AUTH_BASIC_KEY_SECOND = None"
    by (simp add: rb removeItem_def)
next
  assume "localStorage w AUTH_LOCAL_KEY = Some it3 \<and> unusable_local now it3"
  then show "readLocalAuth now w = (None, removeItem AUTH_LOCAL_KEY w)"
    by (simp add: readLocalAuth_unusable)
qed

theorem read_drops_unusable_record_witness:
  "fst (readBasicAuth (1000, 1000) expired_everywhere) = None
   \<and> localStorage (snd (readBasicAuth (1000, 1000) expired_everywhere))
        AUTH_BASIC_KEY_PRIMARY = None
   \<and> localStorage (snd (readBasicAuth (1000, 1000) expired_everywhere))
        AUTH_BASIC_KEY_SECOND = None
   \<and> readLocalAuth 1000 expired_everywhere
        = (None, removeItem AUTH_LOCAL_KEY expired_everywhere)
   \<and> tryRead 1000 AUTH_BASIC_KEY_PRIMARY expired_everywhere
        = (None, removeItem AUTH_BASIC_KEY_PRIMARY expired_everywhere)"
proof -
  have s1: "localStorage expired_everywhere AUTH_BASIC_KEY_PRIMARY
              = Some (JsonObj (user_pw 999))"
    and s2: "localStorage expired_everywhere AUTH_BASIC_KEY_SECOND = Some (Broken ''{oops'')"
    and s3: "localStorage expired_everywhere AUTH_LOCAL_KEY
               = Some (JsonObj \<lparr>username = Some [], password = None, exp = Some 5000\<rparr>)"
    by (simp_all add: expired_everywhere_def fresh_def keys)
  have u1: "unusable_basic 1000 (JsonObj (user_pw 999))"
    and u2: "unusable_basic 1000 (Broken ''{oops'')"
    and u3: "unusable_local 1000
               (JsonObj \<lparr>username = Some [], password = None, exp = Some 5000\<rparr>)"
    by (simp_all add: unusable_basic_def unusable_local_def user_pw_def)
  have c: "case localStorage expired_everywhere AUTH_BASIC_KEY_PRIMARY of None \<Rightarrow> True
           | Some i \<Rightarrow> unusable_basic 1000 i"
    by (simp add: s1 u1)
  show ?thesis
    using read_drops_unusable_record
            [of expired_everywhere AUTH_BASIC_KEY_PRIMARY "JsonObj (user_pw 999)" 1000
                "JsonObj (user_pw 999)" 1000 1000 "Broken ''{oops''"
                "JsonObj \<lparr>username = Some [], password = None, exp = Some 5000\<rparr>"]
          s1 s2 s3 u1 u2 u3 c
    by blast
qed

text \<open>
  The claim as the specification states it compares with \<open>\<le>\<close>. A record whose expiry is
  the very instant of the read satisfies \<open>expiresAt \<le> now\<close>, and the reader returns it and
  keeps the entry.
\<close>

theorem record_at_expiry_instant_is_kept:
  "exp (user_pw 1000) = Some 1000 \<and> (1000 :: int) \<le> 1000
   \<and> localStorage at_expiry AUTH_BASIC_KEY_PRIMARY = Some (JsonObj (user_pw 1000))
   \<and> readBasicAuth (1000, 1000) at_expiry = (Some (user_pw 1000), at_expiry)"
  by (simp add: readBasicAuth_def tryRead_def at_expiry_def fresh_def user_pw_def
        truthy_def expired_def keys)

text \<open>
  An entry that holds the empty string does not parse either, but the readers leave at
  the test of the raw value, before the parse, and keep the entry.
\<close>

lemma empty_entry_is_kept:
  "localStorage w key = Some (Broken []) \<Longrightarrow> tryRead now key w = (None, w)"
  "localStorage w AUTH_LOCAL_KEY = Some (Broken []) \<Longrightarrow> readLocalAuth now w = (None, w)"
  by (simp_all add: tryRead_def readLocalAuth_def)

subsection \<open>Navigation on failed requests\<close>

lemma location_without_query:
  assumes wf: "well_formed_location base w"
    and eq: "pathname w @ search w = base @ p"
    and p: "CHR ''?'' \<notin> set p"
  shows "pathname w = base @ p"
proof (cases "search w")
  case Nil
  with eq show ?thesis by simp
next
  case (Cons c cs)
  with wf have "c = CHR ''?''" by (simp add: well_formed_location_def)
  with Cons have "CHR ''?'' \<in> set (pathname w @ search w)" by simp
  with eq have "CHR ''?'' \<in> set (base @ p)" by simp
  with wf p show ?thesis by (simp add: well_formed_location_def)
qed

lemma location_with_query:
  assumes wf: "well_formed_location base w"
    and eq: "pathname w @ search w = base @ p @ CHR ''?'' # q"
    and p: "CHR ''?'' \<notin> set p"
  shows "pathname w = base @ p"
proof -
  let ?P = "\<lambda>c. c \<noteq> CHR ''?''"
  have nb: "CHR ''?'' \<notin> set (pathname w)" "CHR ''?'' \<notin> set (base @ p)"
    using wf p by (simp_all add: well_formed_location_def)
  have "search w \<noteq> []"
  proof
    assume "search w = []"
    with eq have "pathname w = base @ p @ CHR ''?'' # q" by simp
    with nb show False by simp
  qed
  then obtain cs where s: "search w = CHR ''?'' # cs"
    using wf by (cases "search w") (simp_all add: well_formed_location_def)
  have "takeWhile ?P (pathname w @ search w) = pathname w"
    using nb(1) by (auto simp: s takeWhile_tail)
  moreover have "takeWhile ?P ((base @ p) @ CHR ''?'' # q) = base @ p"
    using nb(2) by (subst takeWhile_tail) auto
  ultimately show ?thesis using eq by simp
qed

lemma digits_no_query: "CHR ''?'' \<notin> set (digits n)"
proof (induction n rule: digits.induct)
  case (1 n)
  have d: "char_of (48 + k) \<noteq> CHR ''?''" if "k < 10" for k :: nat
  proof
    assume "char_of (48 + k) = CHR ''?''"
    then have "(of_char (char_of (48 + k)) :: nat) = of_char (CHR ''?'')" by simp
    with that show False by (simp add: of_char_of)
  qed
  show ?case
  proof (cases "n < 10")
    case True
    then show ?thesis using d[of n] by (subst digits.simps) auto
  next
    case False
    with 1 have "CHR ''?'' \<notin> set (digits (n div 10))" by simp
    moreover have "n mod 10 < 10" by simp
    ultimately show ?thesis using False d[of "n mod 10"] by (subst digits.simps) auto
  qed
qed

lemma not_at_error_view:
  assumes wf: "well_formed_location base w"
    and np: "\<not> prefix (base @ ''/error/'') (pathname w)"
  shows "pathname w @ search w \<noteq> base @ ''/error/'' @ digits st"
proof
  assume "pathname w @ search w = base @ ''/error/'' @ digits st"
  with wf have "pathname w = base @ ''/error/'' @ digits st"
    by (rule location_without_query) (simp add: digits_no_query)
  then have "prefix (base @ ''/error/'') (pathname w)" by (simp add: prefix_def)
  with np show False by simp
qed

lemma not_at_network_view:
  assumes wf: "well_formed_location base w"
    and np: "\<not> prefix (base @ ''/network'') (pathname w)"
  shows "pathname w @ search w \<noteq> base @ ''/network''"
proof
  assume "pathname w @ search w = base @ ''/network''"
  with wf have "pathname w = base @ ''/network''"
    by (rule location_without_query) simp
  with np show False by simp
qed

lemma not_at_expired_login:
  assumes wf: "well_formed_location base w"
    and np: "pathname w \<noteq> base @ ''/profile''"
  shows "pathname w @ search w \<noteq> base @ ''/profile?expired=1''"
proof
  assume "pathname w @ search w = base @ ''/profile?expired=1''"
  then have "pathname w @ search w = base @ ''/profile'' @ CHR ''?'' # ''expired=1''" by simp
  with wf have "pathname w = base @ ''/profile''"
    by (rule location_with_query) simp
  with np show False by simp
qed

text \<open>
  Claim C9. A failed request without a response is rejected to the caller, and on a page
  whose path does not start with the path of the network view the handler assigns
  \<^verbatim>\<open>location.href\<close> once, to that view. On a page whose path starts with the path of the
  network view (the network view itself is one), any number of such failures, handled
  one after the other, leaves the state as it is: no assignment is made.
\<close>

theorem network_failure_navigation:
  assumes nr: "err_status err = None"
    and wf: "well_formed_location base w"
  shows "fst (onRejected mode base err w) = Reject err
    \<and> (\<not> prefix (base @ ''/network'') (pathname w) \<longrightarrow>
        snd (onRejected mode base err w) = w\<lparr>hrefs := hrefs w @ [base @ ''/network'']\<rparr>)
    \<and> (prefix (base @ ''/network'') (pathname w) \<and> list_all (\<lambda>e. err_status e = None) errs \<longrightarrow>
        failures mode base errs w = w)"
proof -
  have g: "go base ''/network'' w = w\<lparr>hrefs := hrefs w @ [base @ ''/network'']\<rparr>"
    if "\<not> prefix (base @ ''/network'') (pathname w)"
    using not_at_network_view[OF wf that] by (simp add: go_def)
  have seq: "failures mode base errs w = w"
    if "prefix (base @ ''/network'') (pathname w)" "list_all (\<lambda>e. err_status e = None) errs"
    using that by (induction errs) (simp_all add: onRejected_def network_failure_def)
  show ?thesis
    using nr g seq by (simp add: onRejected_def network_failure_def)
qed

theorem network_failure_navigation_witness:
  "fst (onRejected Basic [] no_response fresh) = Reject no_response
   \<and> snd (onRejected Basic [] no_response fresh) = fresh\<lparr>hrefs := [''/network'']\<rparr>
   \<and> failures Basic [] [no_response, no_response, no_response] on_network_view = on_network_view"
proof -
  have a: "err_status no_response = None" "well_formed_location [] fresh"
    "well_formed_location [] on_network_view"
    by (simp_all add: no_response_def well_formed_location_def fresh_def on_network_view_def)
  have b: "\<not> prefix ([] @ ''/network'') (pathname fresh)" "hrefs fresh = []"
    "prefix ([] @ ''/network'') (pathname on_network_view)"
    "list_all (\<lambda>e. err_status e = None) [no_response, no_response, no_response]"
    by (simp_all add: fresh_def on_network_view_def no_response_def)
  show ?thesis
    using network_failure_navigation [OF a(1,2), of Basic "[]"] 
          network_failure_navigation [OF a(1,3), of Basic "[no_response, no_response, no_response]"] b
    by simp
qed

text \<open>
  Claim C8, as amended. A failed response whose status is neither 401 nor 403 is rejected
  to the caller. When the status is one of 404, 409, 418, 429, 500, 502, 503 and 504 the
  handler navigates to \<^verbatim>\<open>/error/<status>\<close> under the base path, unless the current path
  already starts with \<^verbatim>\<open>/error/\<close> under the base path, in which case nothing changes. For
  every other status nothing changes.
\<close>

theorem recognised_status_navigation:
  assumes resp: "\<not> network_failure err" "err_status err = Some st"
    and other: "st \<noteq> 401" "st \<noteq> 403"
    and wf: "well_formed_location base w"
  shows "fst (onRejected mode base err w) = Reject err
    \<and> (st \<in> {404, 409, 418, 429, 500, 502, 503, 504}
         \<and> \<not> prefix (base @ ''/error/'') (pathname w) \<longrightarrow>
       snd (onRejected mode base err w) = w\<lparr>hrefs := hrefs w @ [base @ ''/error/'' @ digits st]\<rparr>)
    \<and> (st \<in> {404, 409, 418, 429, 500, 502, 503, 504}
         \<and> prefix (base @ ''/error/'') (pathname w) \<longrightarrow>
       snd (onRejected mode base err w) = w)
    \<and> (st \<notin> {404, 409, 418, 429, 500, 502, 503, 504} \<longrightarrow>
       snd (onRejected mode base err w) = w)"
proof -
  have h: "set handled = {404, 409, 418, 429, 500, 502, 503, 504}"
    by (simp add: handled_def)
  have g: "go base (''/error/'' @ digits st) w = w\<lparr>hrefs := hrefs w @ [base @ ''/error/'' @ digits st]\<rparr>"
    if "\<not> prefix (base @ ''/error/'') (pathname w)"
    using not_at_error_view[OF wf that, of st] by (simp add: go_def)
  show ?thesis
    using resp other g by (simp add: onRejected_def h Let_def)
qed

theorem recognised_status_navigation_witness:
  "fst (onRejected Basic [] status_404 fresh) = Reject status_404
   \<and> snd (onRejected Basic [] status_404 fresh) = fresh\<lparr>hrefs := [''/error/404'']\<rparr>"
proof -
  have a: "\<not> network_failure status_404" "err_status status_404 = Some 404"
    "(404::nat) \<noteq> 401" "(404::nat) \<noteq> 403" "well_formed_location [] fresh"
    by (simp_all add: network_failure_def status_404_def well_formed_location_def fresh_def)
  have d: "digits 404 = ''404''" by code_simp
  have b: "\<not> prefix ([] @ ''/error/'') (pathname fresh)" "hrefs fresh = []"
    by (simp_all add: fresh_def)
  show ?thesis
    using recognised_status_navigation [OF a, of Basic] b by (simp add: d)
qed

text \<open>
  The claim as stated counts the whole 5xx family as recognised. The status 501 belongs
  to that family, the page is not an error view, and the handler does not navigate.
\<close>

theorem status_501_is_not_recognised:
  "(500::nat) \<le> 501 \<and> (501::nat) \<le> 599 \<and> err_status status_501 = Some 501
   \<and> \<not> prefix ''/error/'' (pathname fresh)
   \<and> onRejected Basic [] status_501 fresh = (Reject status_501, fresh)"
  by (simp add: onRejected_def network_failure_def status_501_def fresh_def handled_def
        getHeaderValue_def isWhitelisted_def Let_def)

subsection \<open>Authentication failures\<close>

lemma dropAuth_fields:
  "localStorage (dropAuth w) =
     (localStorage w)(AUTH_LOCAL_KEY := None, AUTH_BASIC_KEY_PRIMARY := None,
                      AUTH_BASIC_KEY_SECOND := None)"
  "common_Authorization (dropAuth w) = None"
  "sessionStorage (dropAuth w) = sessionStorage w"
  "hrefs (dropAuth w) = hrefs w"
  "pathname (dropAuth w) = pathname w"
  "search (dropAuth w) = search w"
  by (simp_all add: dropAuth_def removeItem_def)

lemma remove_first_prefix: "remove_first base (base @ rest) = rest"
proof (cases "base @ rest")
  case Nil
  then show ?thesis by simp
next
  case (Cons c cs)
  have "remove_first base (c # cs) = drop (length base) (c # cs)"
    unfolding Cons [symmetric] by (metis Cons prefixI remove_first.simps(2))
  also have "\<dots> = rest" unfolding Cons [symmetric] by simp
  finally show ?thesis by (simp add: Cons)
qed

lemma segment_iff: "segment word s \<longleftrightarrow> s = ''/'' @ word \<or> prefix (''/'' @ word @ ''/'') s"
proof
  assume "segment word s"
  then obtain r where s: "s = (''/'' @ word) @ r" and r: "r = [] \<or> hd r = CHR ''/''"
    by (auto simp: segment_def prefix_def Let_def)
  show "s = ''/'' @ word \<or> prefix (''/'' @ word @ ''/'') s"
  proof (cases r)
    case Nil
    with s show ?thesis by simp
  next
    case (Cons c cs)
    with r s show ?thesis by (simp add: prefix_def)
  qed
next
  assume "s = ''/'' @ word \<or> prefix (''/'' @ word @ ''/'') s"
  then show "segment word s"
    by (auto simp: segment_def prefix_def Let_def)
qed

lemma whitelist_under_base: "isWhitelisted base (base @ rest) \<longleftrightarrow> exempt rest"
  by (simp add: isWhitelisted_def exempt_def remove_first_prefix segment_iff Let_def
        del: Cons_prefix_Cons)

text \<open>
  What \<^verbatim>\<open>getHeaderValue\<close> returns for given header entries: its loop finds the first entry
  whose name matches, and for the opt-out name both header containers give the value of
  the first entry with that name in any spelling.
\<close>

lemma scan_keys_first:
  "scan_keys hs n = map_option snd (find (\<lambda>e. toLowerCase (fst e) = n) hs)"
  by (induction hs) auto

lemma opt_out_name_is_lower: "toLowerCase ''x-skip-auth-redirect'' = ''x-skip-auth-redirect''"
  by code_simp

lemma getHeaderValue_opt_out:
  "getHeaderValue hdrs ''x-skip-auth-redirect'' = opt_out_value hdrs"
  by (cases hdrs)
     (simp_all add: getHeaderValue_def opt_out_value_def entries_def headers_get_def
        scan_keys_first opt_out_name_is_lower split: option.splits)

lemma getHeaderValue_examples:
  "getHeaderValue NoHeaders ''x-skip-auth-redirect'' = None"
  "getHeaderValue (AxiosHeaders [(''Accept'', ''application/json'')]) ''x-skip-auth-redirect''
     = None"
  "getHeaderValue (PlainObject [(''X-Skip-Auth-Redirect'', ''1'')]) ''x-skip-auth-redirect''
     = Some ''1''"
  "getHeaderValue (AxiosHeaders [(''Accept'', ''application/json''),
       (''x-skip-auth-redirect'', ''1'')]) ''x-skip-auth-redirect'' = Some ''1''"
  "getHeaderValue (PlainObject [(''X-Skip-Auth-Redirect'', ''0''),
       (''x-skip-auth-redirect'', ''1'')]) ''x-skip-auth-redirect'' = Some ''0''"
  "getHeaderValue (AxiosHeaders [(''X-SKIP-AUTH-REDIRECT'', ''true'')]) ''x-skip-auth-redirect''
     = Some ''true''"
  by code_simp+

text \<open>
  The handler on an authentication failure, for any path: the whitelist as the code
  computes it, on the path with the first occurrence of the base path removed.
\<close>

lemma auth_failure_on_any_path:
  assumes mode: "mode \<noteq> Local"
    and resp: "\<not> network_failure err" "err_status err = Some st"
    and auth: "st = 401 \<or> st = 403"
    and wf: "well_formed_location base w"
  shows "fst (onRejected mode base err w) = Reject err
    \<and> (getHeaderValue (err_headers err) ''x-skip-auth-redirect'' = Some ''1'' \<longrightarrow>
         snd (onRejected mode base err w) = w)
    \<and> (getHeaderValue (err_headers err) ''x-skip-auth-redirect'' \<noteq> Some ''1'' \<longrightarrow>
         localStorage (snd (onRejected mode base err w)) =
           (localStorage w)(AUTH_LOCAL_KEY := None, AUTH_BASIC_KEY_PRIMARY := None,
                            AUTH_BASIC_KEY_SECOND := None)
         \<and> common_Authorization (snd (onRejected mode base err w)) = None
         \<and> (if isWhitelisted base (pathname w) \<or> pathname w = base @ ''/profile''
            then sessionStorage (snd (onRejected mode base err w)) = sessionStorage w
                 \<and> hrefs (snd (onRejected mode base err w)) = hrefs w
            else sessionStorage (snd (onRejected mode base err w)) =
                   (sessionStorage w)(RETURN_TO_KEY \<mapsto> pathname w @ search w)
                 \<and> hrefs (snd (onRejected mode base err w)) =
                     hrefs w @ [base @ ''/profile?expired=1'']))"
proof -
  have nh: "st \<notin> set handled" using auth by (auto simp: handled_def)
  have s: "saveReturnTo (Some (pathname w @ search w)) w' =
             w'\<lparr>sessionStorage := (sessionStorage w')(RETURN_TO_KEY \<mapsto> pathname w @ search w)\<rparr>"
    if "pathname w' = pathname w" "search w' = search w" for w'
    using that by (simp add: saveReturnTo_def truthy_def str_def)
  have g: "go base ''/profile?expired=1'' w' = w'\<lparr>hrefs := hrefs w' @ [base @ ''/profile?expired=1'']\<rparr>"
    if "pathname w \<noteq> base @ ''/profile''" "pathname w' = pathname w" "search w' = search w" for w'
    using not_at_expired_login[OF wf that(1)] that(2,3) by (simp add: go_def)
  show ?thesis
    using mode resp auth nh
    by (auto simp: onRejected_def Let_def dropAuth_fields s g)
qed

text \<open>
  Claim C1. Outside the local mode, a failed response with the status 401 or 403 is
  always rejected to the caller. When the headers of the request carry
  \<^verbatim>\<open>x-skip-auth-redirect\<close> with the value \<^verbatim>\<open>1\<close> (the first of their entries with that name,
  in any spelling of case, has that value) the state is left as it is. Otherwise (no
  such entry, no headers, or another value) the three credential keys are removed and the
  default \<^verbatim>\<open>Authorization\<close> header is deleted;
  then, unless the path is whitelisted, the path with its query string is stored under
  \<^verbatim>\<open>return_to\<close> and the handler navigates to \<^verbatim>\<open>/profile?expired=1\<close> under the base path;
  on a whitelisted path the session storage and the navigation are left alone. The page
  is one of the application, its path the base path followed by \<open>rest\<close>; the whitelist is
  read by path segments (\<^verbatim>\<open>/error\<close>, \<^verbatim>\<open>/network\<close>, \<^verbatim>\<open>/profile\<close>, \<^verbatim>\<open>/register\<close> and what lies
  below them), and the profile path is on it.
\<close>

theorem auth_failure_handling:
  assumes mode: "mode \<noteq> Local"
    and resp: "\<not> network_failure err" "err_status err = Some st"
    and auth: "st = 401 \<or> st = 403"
    and wf: "well_formed_location base w"
    and under: "pathname w = base @ rest"
  shows "fst (onRejected mode base err w) = Reject err
    \<and> (opt_out_value (err_headers err) = Some ''1'' \<longrightarrow>
         snd (onRejected mode base err w) = w)
    \<and> (opt_out_value (err_headers err) \<noteq> Some ''1'' \<longrightarrow>
         localStorage (snd (onRejected mode base err w)) =
           (localStorage w)(AUTH_LOCAL_KEY := None, AUTH_BASIC_KEY_PRIMARY := None,
                            AUTH_BASIC_KEY_SECOND := None)
         \<and> common_Authorization (snd (onRejected mode base err w)) = None
         \<and> (if exempt rest
            then sessionStorage (snd (onRejected mode base err w)) = sessionStorage w
                 \<and> hrefs (snd (onRejected mode base err w)) = hrefs w
            else sessionStorage (snd (onRejected mode base err w)) =
                   (sessionStorage w)(RETURN_TO_KEY \<mapsto> pathname w @ search w)
                 \<and> hrefs (snd (onRejected mode base err w)) =
                     hrefs w @ [base @ ''/profile?expired=1'']))"
proof -
  have e: "(isWhitelisted base (pathname w) \<or> pathname w = base @ ''/profile'') = exempt rest"
    using whitelist_under_base [of base rest] by (auto simp: under exempt_def)
  show ?thesis
    using auth_failure_on_any_path [OF mode resp auth wf]
    unfolding e getHeaderValue_opt_out .
qed

theorem auth_failure_handling_witness:
  "fst (onRejected Basic [] status_403 logged_in) = Reject status_403
   \<and> localStorage (snd (onRejected Basic [] status_403 logged_in)) AUTH_BASIC_KEY_PRIMARY = None
   \<and> common_Authorization (snd (onRejected Basic [] status_403 logged_in)) = None
   \<and> sessionStorage (snd (onRejected Basic [] status_403 logged_in)) RETURN_TO_KEY
        = Some ''/edit/42''
   \<and> hrefs (snd (onRejected Basic [] status_403 logged_in)) = [''/profile?expired=1'']
   \<and> onRejected Basic [] status_401_silent logged_in = (Reject status_401_silent, logged_in)
   \<and> onRejected Basic [] status_403_opted_out logged_in
        = (Reject status_403_opted_out, logged_in)
   \<and> localStorage (snd (onRejected Basic [] status_403_accept logged_in))
        AUTH_BASIC_KEY_PRIMARY = None
   \<and> common_Authorization (snd (onRejected Basic [] status_403_accept logged_in)) = None
   \<and> localStorage (snd (onRejected Basic [] status_403_not_opted_out logged_in))
        AUTH_BASIC_KEY_PRIMARY = None
   \<and> hrefs (snd (onRejected Basic [] status_403_not_opted_out logged_in))
        = [''/profile?expired=1'']"
proof -
  have li: "logged_in
      = fresh\<lparr>localStorage := [AUTH_BASIC_KEY_PRIMARY \<mapsto> JsonObj (user_pw 604800000)],
              common_Authorization := Some ''Basic dXNlcjpwdw==''\<rparr>"
    by (simp add: logged_in_def rememberBasicAuth_def user_pw_header setItem_def user_pw_def
          fresh_def Let_def)
  have wf: "well_formed_location [] logged_in"
    by (simp add: well_formed_location_def li fresh_def)
  have u: "pathname logged_in = [] @ ''/edit/42''" by (simp add: li fresh_def)
  have x: "\<not> exempt ''/edit/42''" by (simp add: exempt_def)
  have p: "pathname logged_in @ search logged_in = ''/edit/42''" "hrefs logged_in = []"
    by (simp_all add: li fresh_def)
  have m: "Basic \<noteq> Local" by simp
  have n: "\<not> network_failure status_403" "\<not> network_failure status_401_silent"
    "\<not> network_failure status_403_accept" "\<not> network_failure status_403_opted_out"
    "\<not> network_failure status_403_not_opted_out"
    by (simp_all add: network_failure_def status_403_def status_401_silent_def
          status_403_accept_def status_403_opted_out_def status_403_not_opted_out_def)
  have st: "err_status status_403 = Some 403" "err_status status_401_silent = Some 401"
    "err_status status_403_accept = Some 403" "err_status status_403_opted_out = Some 403"
    "err_status status_403_not_opted_out = Some 403"
    by (simp_all add: status_403_def status_401_silent_def status_403_accept_def
          status_403_opted_out_def status_403_not_opted_out_def)
  have a: "(403::nat) = 401 \<or> (403::nat) = 403" "(401::nat) = 401 \<or> (401::nat) = 403"
    by simp_all
  have o: "opt_out_value (err_headers status_403) = None"
    "opt_out_value (err_headers status_401_silent) = Some ''1''"
    "opt_out_value (err_headers status_403_accept) = None"
    "opt_out_value (err_headers status_403_opted_out) = Some ''1''"
    "opt_out_value (err_headers status_403_not_opted_out) = Some ''0''"
    by code_simp+
  have 1: "fst (onRejected Basic [] status_403 logged_in) = Reject status_403
   \<and> localStorage (snd (onRejected Basic [] status_403 logged_in)) AUTH_BASIC_KEY_PRIMARY = None
   \<and> common_Authorization (snd (onRejected Basic [] status_403 logged_in)) = None
   \<and> sessionStorage (snd (onRejected Basic [] status_403 logged_in)) RETURN_TO_KEY
        = Some ''/edit/42''
   \<and> hrefs (snd (onRejected Basic [] status_403 logged_in)) = [''/profile?expired=1'']"
    using auth_failure_handling [OF m n(1) st(1) a(1) wf u] o(1) p x by (simp add: keys)
  have 2: "onRejected Basic [] status_401_silent logged_in
             = (Reject status_401_silent, logged_in)"
    using auth_failure_handling [OF m n(2) st(2) a(2) wf u] o(2) by (simp add: prod_eq_iff)
  have 3: "onRejected Basic [] status_403_opted_out logged_in
             = (Reject status_403_opted_out, logged_in)"
    using auth_failure_handling [OF m n(4) st(4) a(1) wf u] o(4) by (simp add: prod_eq_iff)
  have 4: "localStorage (snd (onRejected Basic [] status_403_accept logged_in))
             AUTH_BASIC_KEY_PRIMARY = None
   \<and> common_Authorization (snd (onRejected Basic [] status_403_accept logged_in)) = None"
    using auth_failure_handling [OF m n(3) st(3) a(1) wf u] o(3) by (simp add: keys)
  have 5: "localStorage (snd (onRejected Basic [] status_403_not_opted_out logged_in))
             AUTH_BASIC_KEY_PRIMARY = None
   \<and> hrefs (snd (onRejected Basic [] status_403_not_opted_out logged_in))
        = [''/profile?expired=1'']"
    using auth_failure_handling [OF m n(5) st(5) a(1) wf u] o(5) p x by (simp add: keys)
  from 1 2 3 4 5 show ?thesis by simp
qed

text \<open>
  The silent profile request of the start-up carries the opt-out header, and the request
  interceptor keeps it; a refusal of that request therefore clears nothing and navigates
  nowhere.
\<close>

lemma opt_out_survives_interceptor:
  assumes "request_interceptor mode ts (PlainObject [(''X-Skip-Auth-Redirect'', ''1'')]) w
             = (Returns h, w1)"
  shows "getHeaderValue h ''x-skip-auth-redirect'' = Some ''1''"
proof -
  have l: "toLowerCase ''X-Skip-Auth-Redirect'' = ''x-skip-auth-redirect''" by code_simp
  show ?thesis
    using assms
    by (auto simp: request_interceptor_def getHeaderValue_def set_Authorization_def l
          split: prod.splits option.splits if_splits)
qed

lemma silent_profile_request_never_redirects:
  assumes "mode \<noteq> Local" "c \<noteq> Some ''ERR_NETWORK''" "st = 401 \<or> st = 403"
    and "request_interceptor mode ts (PlainObject [(''X-Skip-Auth-Redirect'', ''1'')]) w
           = (Returns h, w1)"
  shows "myProfileSilent mode base ts (Failure c (Some st)) w
           = (Reject \<lparr>err_code = c, err_status = Some st, err_headers = h\<rparr>, w1)"
proof -
  have h: "getHeaderValue h ''x-skip-auth-redirect'' = Some ''1''"
    using assms(4) by (rule opt_out_survives_interceptor)
  have nh: "st \<notin> set handled" using assms(3) by (auto simp: handled_def)
  show ?thesis
    using assms nh h
    by (auto simp: myProfileSilent_def api_get_def onRejected_def network_failure_def Let_def)
qed

subsection \<open>Remembering credentials\<close>

lemma colon: "latin1 '':'' = [58]"
  by code_simp


lemma basic_header_wide:
  "\<not> list_all (\<lambda>c. c < 256) (u @ p) \<Longrightarrow> basic_header u p = None"
  by (auto simp: basic_header_def btoa_def colon)




subsection \<open>Credentials on outgoing requests\<close>


















text \<open>
  A plain object that holds the name in a second spelling: the interceptor adds its
  entry, and the object then carries both.
\<close>

lemma plain_object_with_lower_case_entry:
  "fst (request_interceptor Basic (1, 1) (PlainObject [(''authorization'', ''Basic eDp5'')])
          logged_in)
     = Returns (PlainObject [(''authorization'', ''Basic eDp5''),
                             (''Authorization'', ''Basic dXNlcjpwdw=='')])"
proof -
  have li: "localStorage logged_in AUTH_BASIC_KEY_PRIMARY = Some (JsonObj (user_pw 604800000))"
    by (simp add: logged_in_def rememberBasicAuth_def user_pw_header setItem_def user_pw_def
          Let_def)
  show ?thesis
    by (simp add: request_interceptor_def readBasicAuth_def tryRead_def li user_pw_def
          truthy_def expired_def basic_token_def jstr_def user_pw_header set_Authorization_def)
qed

text \<open>
  Claim C6 fails on the code. \<open>rememberBasicAuth\<close> (and the bootstrap) also set the default
  header of the shared client, and only \<open>dropAuth\<close> deletes it. One millisecond after the
  expiry of the record written by a login at the instant 0, the reader finds the record
  expired and removes it, the interceptor attaches nothing, and the request is still sent
  with the credentials of the default header.
\<close>

theorem stale_default_header_is_sent:
  "fst (readBasicAuth (604800001, 604800001) logged_in) = None
   \<and> fst (request_interceptor Basic (604800001, 604800001) NoHeaders logged_in)
       = Returns NoHeaders
   \<and> localStorage (snd (sent_Authorization Basic (604800001, 604800001) NoHeaders logged_in))
        AUTH_BASIC_KEY_PRIMARY = None
   \<and> fst (sent_Authorization Basic (604800001, 604800001) NoHeaders logged_in)
        = Sent (Some ''Basic dXNlcjpwdw=='')"
  by (simp add: sent_Authorization_def request_interceptor_def readBasicAuth_def tryRead_def
        logged_in_def rememberBasicAuth_def user_pw_header setItem_def removeItem_def fresh_def
        truthy_def expired_def authorization_of_def entries_def Let_def
        AUTH_BASIC_KEY_PRIMARY_def AUTH_BASIC_KEY_SECOND_def)

subsection \<open>Login\<close>

lemma onRejected_rejects: "fst (onRejected mode base err w) = Reject err"
  by (simp add: onRejected_def Let_def split: option.splits)

lemma api_get_failure:
  "\<exists>e. fst (api_get mode base ts hdrs (Failure c st) w) = Reject e"
  by (simp add: api_get_def onRejected_rejects split: prod.splits attempt.splits)

lemma fetch_failure:
  "\<exists>e. fst (fetchMyProfileWithBasic mode base tq u p (Failure c st) w) = Reject e"
  by (simp add: fetchMyProfileWithBasic_def api_get_failure split: option.splits)

lemma nothing_persisted_refl: "nothing_persisted w w"
  by (simp add: nothing_persisted_def)

lemma nothing_persisted_trans:
  "nothing_persisted w w1 \<Longrightarrow> nothing_persisted w1 w2 \<Longrightarrow> nothing_persisted w w2"
  by (auto simp: nothing_persisted_def intro: map_le_trans)

lemma removeItem_persists_nothing: "nothing_persisted w (removeItem key w)"
  by (simp add: nothing_persisted_def removeItem_def map_le_def)

lemma tryRead_persists_nothing: "nothing_persisted w (snd (tryRead now key w))"
  by (simp add: tryRead_def removeItem_persists_nothing nothing_persisted_refl
        split: option.splits item.splits)

lemma readBasicAuth_persists_nothing: "nothing_persisted w (snd (readBasicAuth ts w))"
proof -
  obtain r w1 where 1: "tryRead (fst ts) AUTH_BASIC_KEY_PRIMARY w = (r, w1)" by fastforce
  then have a: "nothing_persisted w w1"
    using tryRead_persists_nothing [of w "fst ts" AUTH_BASIC_KEY_PRIMARY] by simp
  show ?thesis
  proof (cases r)
    case None
    with 1 a tryRead_persists_nothing [of w1 "snd ts" AUTH_BASIC_KEY_SECOND] show ?thesis
      by (auto simp: readBasicAuth_def intro: nothing_persisted_trans)
  next
    case (Some s)
    with 1 a show ?thesis by (simp add: readBasicAuth_def)
  qed
qed

lemma request_interceptor_persists_nothing:
  "nothing_persisted w (snd (request_interceptor mode ts hdrs w))"
proof (cases "readBasicAuth ts w")
  case (Pair r w1)
  with readBasicAuth_persists_nothing [of w ts] have "nothing_persisted w w1" by simp
  with Pair show ?thesis
    by (cases r)
       (simp_all add: request_interceptor_def nothing_persisted_refl split: option.splits)
qed

lemma dropAuth_persists_nothing: "nothing_persisted w (dropAuth w)"
  by (simp add: nothing_persisted_def dropAuth_def removeItem_def map_le_def)

lemma go_credentials:
  "localStorage (go base to w) = localStorage w"
  "common_Authorization (go base to w) = common_Authorization w"
  by (simp_all add: go_def Let_def)

lemma saveReturnTo_credentials:
  "localStorage (saveReturnTo path w) = localStorage w"
  "common_Authorization (saveReturnTo path w) = common_Authorization w"
  by (simp_all add: saveReturnTo_def Let_def)

lemma onRejected_credentials:
  "localStorage (snd (onRejected mode base err w)) = localStorage w
     \<and> common_Authorization (snd (onRejected mode base err w)) = common_Authorization w
   \<or> localStorage (snd (onRejected mode base err w)) = localStorage (dropAuth w)
     \<and> common_Authorization (snd (onRejected mode base err w)) = None"
proof -
  have d: "common_Authorization (dropAuth w) = None" by (simp add: dropAuth_def)
  show ?thesis
    by (simp add: onRejected_def Let_def go_credentials saveReturnTo_credentials d
          split: option.splits)
qed

lemma onRejected_persists_nothing: "nothing_persisted w (snd (onRejected mode base err w))"
  using onRejected_credentials [of mode base err w] dropAuth_persists_nothing [of w]
  by (auto simp: nothing_persisted_def)

lemma api_get_failure_persists_nothing:
  "nothing_persisted w (snd (api_get mode base ts hdrs (Failure c st) w))"
proof -
  obtain a w1 where 1: "request_interceptor mode ts hdrs w = (a, w1)" by fastforce
  then have 2: "nothing_persisted w w1"
    using request_interceptor_persists_nothing [of w mode ts hdrs] by simp
  show ?thesis
  proof (cases a)
    case (Returns h)
    with 1 2 show ?thesis
      using onRejected_persists_nothing
              [of w1 mode base "\<lparr>err_code = c, err_status = st, err_headers = h\<rparr>"]
      by (auto simp: api_get_def intro: nothing_persisted_trans)
  next
    case Throws
    with 1 2 show ?thesis
      using onRejected_persists_nothing [of w1 mode base invalid_character]
      by (auto simp: api_get_def intro: nothing_persisted_trans)
  qed
qed

lemma fetch_failure_persists_nothing:
  "nothing_persisted w (snd (fetchMyProfileWithBasic mode base tq u p (Failure c st) w))"
  by (simp add: fetchMyProfileWithBasic_def api_get_failure_persists_nothing
        nothing_persisted_refl split: option.splits)

text \<open>
  The login of the auth slice in the basic mode verifies first and remembers afterwards:
  when the verification fails it rejects, and it leaves no credential that was not there
  before.
\<close>

lemma loginBasic_is_atomic:
  "fst (loginBasic mode base tq tr u p (Failure c st) w) = Reject Wrong_login_or_password
   \<and> nothing_persisted w (snd (loginBasic mode base tq tr u p (Failure c st) w))"
proof (cases "fetchMyProfileWithBasic mode base tq u p (Failure c st) w")
  case (Pair r w1)
  then obtain e where r: "r = Reject e"
    using fetch_failure [of mode base tq u p c st w] by auto
  have "nothing_persisted w w1"
    using Pair fetch_failure_persists_nothing [of w mode base tq u p c st] by simp
  with Pair r show ?thesis by (simp add: loginBasic_def)
qed

text \<open>
  Claim C5 fails on the code. \<open>loginUserApi\<close> remembers the pair before it asks for the
  profile. When the server cannot be reached the call rejects, and the record under
  \<^verbatim>\<open>fw_auth\<close> and the default header of the pair stay (only a failure with the status 401
  or 403 makes the response interceptor clear them).
\<close>

theorem loginUserApi_keeps_unverified_credentials:
  "fst (loginUserApi Basic [] (0, 0) (1, 1) (latin1 ''user'') (latin1 ''pw'') unreachable
          login_page)
     = Reject \<lparr>err_code = Some ''ERR_NETWORK'', err_status = None,
               err_headers = PlainObject [(''Authorization'', ''Basic dXNlcjpwdw=='')]\<rparr>
   \<and> localStorage
        (snd (loginUserApi Basic [] (0, 0) (1, 1) (latin1 ''user'') (latin1 ''pw'') unreachable
                login_page))
        AUTH_BASIC_KEY_PRIMARY
     = Some (JsonObj \<lparr>username = Some (latin1 ''user''), password = Some (latin1 ''pw''),
                      exp = Some 604800000\<rparr>)
   \<and> common_Authorization
        (snd (loginUserApi Basic [] (0, 0) (1, 1) (latin1 ''user'') (latin1 ''pw'') unreachable
                login_page))
     = Some ''Basic dXNlcjpwdw=='' "
  by (simp add: loginUserApi_def myProfile_def api_get_def request_interceptor_def
        readBasicAuth_def tryRead_def rememberAuth_def rememberBasicAuth_def setItem_def
        unreachable_def login_page_def fresh_def truthy_def expired_def onRejected_def
        network_failure_def go_def set_Authorization_def basic_token_def jstr_def
        user_pw_header Let_def AUTH_BASIC_KEY_PRIMARY_def AUTH_BASIC_KEY_SECOND_def)

lemma length_trim: "length (trim u) \<le> length u"
proof -
  have "length (trim u) \<le> length (dropWhile is_space u)"
    by (simp add: trim_def) (metis length_dropWhile_le length_rev)
  also have "\<dots> \<le> length u" by (rule length_dropWhile_le)
  finally show ?thesis .
qed

text \<open>
  Claim C4, as amended. In the hybrid mode, when the verification request of a login
  fails: if the identity without its surrounding white space has at least three
  characters, the login succeeds with the placeholder profile of the local mode, and the
  local record of the identity (as given, seven days) is stored; otherwise the login is
  rejected with the error of the facade and writes nothing after the failed request. An
  identity shorter than three characters is always rejected.
\<close>

theorem hybrid_login_fallback:
  "(3 \<le> length (trim u) \<longrightarrow>
      fst (login Hybrid base tq tr u p remember (Failure c st) w) = Resolve (localMe u)
      \<and> localStorage (snd (login Hybrid base tq tr u p remember (Failure c st) w)) AUTH_LOCAL_KEY
          = Some (JsonObj \<lparr>username = Some u, password = None,
                           exp = Some (fst tr + 7 * 24 * 3600 * 1000)\<rparr>))
   \<and> (length (trim u) < 3 \<longrightarrow>
      login Hybrid base tq tr u p remember (Failure c st) w
        = (Reject Login_error, snd (fetchMyProfileWithBasic Hybrid base tq u p (Failure c st) w)))
   \<and> (length u < 3 \<longrightarrow>
      fst (login Hybrid base tq tr u p remember (Failure c st) w) = Reject Login_error)"
proof -
  obtain e w1 where
    f: "fetchMyProfileWithBasic Hybrid base tq u p (Failure c st) w = (Reject e, w1)"
    using fetch_failure [of Hybrid base tq u p c st w] by (metis prod.collapse)
  have short: "length (trim u) < 3" if "length u < 3"
    using that length_trim [of u] by simp
  show ?thesis
    using short
    by (auto simp: login_def loginHybrid_def hybrid_fallback_def f rememberLocalAuth_def
          setItem_def Let_def)
qed

theorem hybrid_login_fallback_witness:
  "fst (login Hybrid [] (0, 0) (5, 5) (latin1 ''user'') (latin1 ''pw'') None unreachable
          login_page)
     = Resolve (localMe (latin1 ''user''))
   \<and> localStorage
        (snd (login Hybrid [] (0, 0) (5, 5) (latin1 ''user'') (latin1 ''pw'') None unreachable
                login_page))
        AUTH_LOCAL_KEY
     = Some (JsonObj \<lparr>username = Some (latin1 ''user''), password = None,
                      exp = Some 604800005\<rparr>)
   \<and> fst (login Hybrid [] (0, 0) (5, 5) (latin1 ''ab'') (latin1 ''pw'') None unreachable
            login_page)
     = Reject Login_error
   \<and> login Hybrid [] (0, 0) (5, 5) (latin1 ''ab '') wide_pw None unreachable login_page
     = (Reject Login_error, login_page)"
proof -
  have t: "length (trim (latin1 ''user'')) = 4" "length (latin1 ''ab'') = 2"
    "length (trim (latin1 ''ab '')) = 2"
    by (simp_all add: trim_def is_space_def latin1_def)
  have f: "fetchMyProfileWithBasic Hybrid [] (0, 0) (latin1 ''ab '') wide_pw
             (Failure (Some ''ERR_NETWORK'') None) login_page
           = (Reject invalid_character, login_page)"
    by (simp add: fetchMyProfileWithBasic_def basic_header_wide wide_pw_def)
  have 1: "fst (login Hybrid [] (0, 0) (5, 5) (latin1 ''user'') (latin1 ''pw'') None unreachable
                  login_page)
     = Resolve (localMe (latin1 ''user''))
   \<and> localStorage
        (snd (login Hybrid [] (0, 0) (5, 5) (latin1 ''user'') (latin1 ''pw'') None unreachable
                login_page))
        AUTH_LOCAL_KEY
     = Some (JsonObj \<lparr>username = Some (latin1 ''user''), password = None,
                      exp = Some 604800005\<rparr>)"
    using hybrid_login_fallback [of "latin1 ''user''" "[]" "(0, 0)" "(5, 5)" "latin1 ''pw''"
            None "Some ''ERR_NETWORK''" None login_page] t(1)
    by (simp add: unreachable_def)
  have 2: "fst (login Hybrid [] (0, 0) (5, 5) (latin1 ''ab'') (latin1 ''pw'') None unreachable
                  login_page)
     = Reject Login_error"
    using hybrid_login_fallback [of "latin1 ''ab''" "[]" "(0, 0)" "(5, 5)" "latin1 ''pw''"
            None "Some ''ERR_NETWORK''" None login_page] t(2)
    by (simp add: unreachable_def)
  have 3: "login Hybrid [] (0, 0) (5, 5) (latin1 ''ab '') wide_pw None unreachable login_page
     = (Reject Login_error, login_page)"
    using hybrid_login_fallback [of "latin1 ''ab ''" "[]" "(0, 0)" "(5, 5)" wide_pw
            None "Some ''ERR_NETWORK''" None login_page] t(3) f
    by (simp add: unreachable_def)
  from 1 2 3 show ?thesis by simp
qed

text \<open>
  The claim as stated measures the identity itself. The identity \<^verbatim>\<open>ab\<close> followed by a space
  has length three, and its login is rejected when the verification fails; no local
  record is stored.
\<close>

theorem padded_login_of_length_three_fails:
  "length (latin1 ''ab '') = 3
   \<and> fst (login Hybrid [] (0, 0) (0, 0) (latin1 ''ab '') (latin1 ''pw'') None refused
            login_page)
     = Reject Login_error
   \<and> localStorage
        (snd (login Hybrid [] (0, 0) (0, 0) (latin1 ''ab '') (latin1 ''pw'') None refused
                login_page))
        AUTH_LOCAL_KEY = None"
proof -
  have t: "length (trim (latin1 ''ab '')) = 2" "length (latin1 ''ab '') = 3"
    by (simp_all add: trim_def is_space_def latin1_def)
  have h: "basic_header (latin1 ''ab '') (latin1 ''pw'') = Some ''Basic YWIgOnB3''"
    unfolding basic_header_latin1 by code_simp
  have l: "toLowerCase ''Authorization'' = ''authorization''" by code_simp
  show ?thesis
    by (simp add: login_def loginHybrid_def hybrid_fallback_def fetchMyProfileWithBasic_def
        api_get_def request_interceptor_def readBasicAuth_def tryRead_def refused_def
        login_page_def fresh_def t h l onRejected_def network_failure_def getHeaderValue_def
        headers_get_def isWhitelisted_def segment_def dropAuth_def removeItem_def
        saveReturnTo_def go_def truthy_def str_def Let_def AUTH_BASIC_KEY_PRIMARY_def
        AUTH_BASIC_KEY_SECOND_def AUTH_LOCAL_KEY_def)
qed

text \<open>
  \<open>loginUserApi\<close> has no fallback: outside the local mode it rejects whenever the profile
  request fails, whatever the identity.
\<close>

lemma loginUserApi_has_no_fallback:
  "mode \<noteq> Local \<Longrightarrow>
   \<exists>e. fst (loginUserApi mode base tr tq u p (Failure c st) w) = Reject e"
  using api_get_failure [of mode base tq NoHeaders c st]
  by (auto simp: loginUserApi_def myProfile_def split: prod.splits attempt.splits)

subsection \<open>The return target\<close>

text \<open>
  Claim C7, as amended. Two functions resolve the destination, neither with the whole
  order. The effect of the profile page, once authenticated, navigates to the in-memory
  target of the router when there is one, and then leaves the session value
  \<^verbatim>\<open>return_to\<close> in place; else to the value of \<^verbatim>\<open>return_to\<close>, which it deletes; else it does
  not navigate. The handler of the login form, after a successful login, navigates to the
  value of \<^verbatim>\<open>return_to\<close>, which it deletes, or else to the fixed default \<^verbatim>\<open>/\<close>; it does not
  look at the in-memory target.
\<close>

theorem return_target_resolution:
  "(from = Some f \<and> f \<noteq> [] \<longrightarrow> ProfilePage_effect True from w = (Some f, w))
   \<and> ((from = None \<or> from = Some []) \<and> sessionStorage w RETURN_TO_KEY = Some v \<and> v \<noteq> [] \<longrightarrow>
        ProfilePage_effect True from w
          = (Some v, w\<lparr>sessionStorage := (sessionStorage w)(RETURN_TO_KEY := None)\<rparr>))
   \<and> ((from = None \<or> from = Some [])
       \<and> (sessionStorage w RETURN_TO_KEY = None \<or> sessionStorage w RETURN_TO_KEY = Some []) \<longrightarrow>
        ProfilePage_effect True from w = (None, w))
   \<and> (sessionStorage w RETURN_TO_KEY = Some v \<and> v \<noteq> [] \<longrightarrow>
        handleLogin_redirect w
          = (v, w\<lparr>sessionStorage := (sessionStorage w)(RETURN_TO_KEY := None)\<rparr>))
   \<and> (sessionStorage w RETURN_TO_KEY = None \<or> sessionStorage w RETURN_TO_KEY = Some [] \<longrightarrow>
        handleLogin_redirect w = (''/'', w))"
  by (auto simp: ProfilePage_effect_def handleLogin_redirect_def consumeReturnTo_def truthy_def
        str_def Let_def)

theorem return_target_resolution_witness:
  "ProfilePage_effect True (Some ''/new'') with_return_to = (Some ''/new'', with_return_to)
   \<and> ProfilePage_effect True None with_return_to = (Some ''/edit/42'', fresh)
   \<and> handleLogin_redirect fresh = (''/'', fresh)"
proof -
  have s: "sessionStorage with_return_to RETURN_TO_KEY = Some ''/edit/42''"
    "sessionStorage fresh RETURN_TO_KEY = None"
    "with_return_to\<lparr>sessionStorage := (sessionStorage with_return_to)(RETURN_TO_KEY := None)\<rparr> = fresh"
    by (simp_all add: with_return_to_def fresh_def)
  show ?thesis
    using return_target_resolution [of "Some ''/new''" "''/new''" with_return_to "''/edit/42''"]
          return_target_resolution [of None "''/new''" with_return_to "''/edit/42''"]
          return_target_resolution [of None "''/new''" fresh "''/edit/42''"] s
    by simp
qed

text \<open>
  The claim as stated has one order, in-memory target, then \<^verbatim>\<open>return_to\<close>, then a default.
  With neither target the profile page resolves to nothing, not to a default; and with a
  value under \<^verbatim>\<open>return_to\<close> the handler of the login form goes there and deletes it,
  whether or not the router holds an in-memory target, which is no argument of it.
\<close>

theorem no_single_resolution_order:
  "ProfilePage_effect True None fresh = (None, fresh)
   \<and> sessionStorage with_return_to RETURN_TO_KEY = Some ''/edit/42''
   \<and> handleLogin_redirect with_return_to = (''/edit/42'', fresh)"
  by (simp add: ProfilePage_effect_def handleLogin_redirect_def consumeReturnTo_def truthy_def
        str_def with_return_to_def fresh_def Let_def)

end
